theory Spec2Isabelle
  imports Main "HOL-Library.Sublist"
begin

section \<open>Data model\<close>

text \<open>
  The program is one Go file, \<^verbatim>\<open>main.go\<close>. It is a straight line of calls to
  external collaborators (processes, the Kubernetes client, the Helm client, the file
  system, the network), each followed by \<^verbatim>\<open>if err != nil { log.Fatalf(...) }\<close>, with
  one unbounded loop in the middle. The embedding threads a state through these calls
  and records every externally visible effect, in order, in a trace.
\<close>

text \<open>A Go \<^verbatim>\<open>error\<close> value. \<^verbatim>\<open>*exec.ExitError\<close> is what \<^verbatim>\<open>cmd.Run\<close> returns
  for a process that ran and exited unsuccessfully; every other error is its message.\<close>

datatype error = ExitError int | Error string

type_synonym bytes = "char list"

text \<open>\<^verbatim>\<open>time.Duration\<close>: nanoseconds.\<close>

type_synonym Duration = int

definition time_Second :: Duration where
  "time_Second = 1000000000"

definition time_Minute :: Duration where
  "time_Minute = 60 * time_Second"

text \<open>\<^verbatim>\<open>repo.Entry\<close>, with the two fields the program sets.\<close>

record Entry =
  Name :: string
  URL :: string

text \<open>\<^verbatim>\<open>helmclient.ChartSpec\<close>, with the fields the program sets; a field the
  program leaves out has Go's zero value.\<close>

record ChartSpec =
  ReleaseName :: string
  ChartName :: string
  Namespace :: string
  UpgradeCRDs :: bool
  Wait :: bool
  WaitForJobs :: bool
  Timeout :: Duration
  Version :: string
  ValuesYaml :: string

text \<open>\<^verbatim>\<open>core.Namespace\<close>: the type meta, the name and labels of the object meta;
  the spec and status are empty structs in every use.\<close>

record NamespaceObj =
  Kind :: string
  APIVersion :: string
  meta_Name :: string
  meta_Labels :: "(string \<times> string) list"

text \<open>\<^verbatim>\<open>helmclient.KubeConfClientOptions\<close> with its embedded \<^verbatim>\<open>Options\<close>. A
  \<^verbatim>\<open>helmclient.Client\<close> is opaque to the program; the model identifies a client handle
  with the options it was constructed from.\<close>

record KubeConfClientOptions =
  opt_Namespace :: string
  RepositoryCache :: string
  RepositoryConfig :: string
  Debug :: bool
  Linting :: bool
  KubeContext :: string
  KubeConfig :: bytes

text \<open>An argument of a \<^verbatim>\<open>log.Printf\<close> call: a string or an error value
  (possibly nil).\<close>

datatype arg = AStr string | AErr "error option"

text \<open>What a child process does: it cannot be started, or it runs, writes chunks to
  its standard output and standard error in some order, and exits with a status.\<close>

datatype stream = Stdout | Stderr

datatype process = LaunchFailure error | Exited "(stream \<times> string) list" int

text \<open>
  The trace: one event for each call to a collaborator, with its arguments and what it
  returned, and one for each log line, sleep, and process exit.
\<close>

datatype event =
    ExecRun string "string list" string "error option"
  | BuildConfigFromFlags string string "error option"
  | NewForConfig "error option"
  | PodsList string "string list" "error option"
  | NamespacesCreate NamespaceObj "error option"
  | ReadFile string bytes "error option"
  | NewClientFromKubeConf KubeConfClientOptions "error option"
  | AddOrUpdateChartRepo KubeConfClientOptions Entry "error option"
  | InstallOrUpgradeChart KubeConfClientOptions ChartSpec "error option"
  | InstallChart KubeConfClientOptions ChartSpec "error option"
  | NetDial string string string "error option"
  | ConnClose
  | Sleep Duration
  | Log string "arg list"
  | Exit int

text \<open>
  The collaborators. Each answers as a function of the number of collaborator calls made
  before it in this run (\<open>tick\<close>) and of its arguments, so an answer may change from
  one call to the next, as a test double's or a live cluster's does.
  \<^verbatim>\<open>net_Dial\<close> answers with the text of the connection's local address
  (\<^verbatim>\<open>conn.LocalAddr().(*net.UDPAddr).IP.String()\<close>).
\<close>

record world =
  exec_Command :: "nat \<Rightarrow> string \<Rightarrow> string list \<Rightarrow> process"
  clientcmd_BuildConfigFromFlags :: "nat \<Rightarrow> string \<Rightarrow> string \<Rightarrow> error option"
  kubernetes_NewForConfig :: "nat \<Rightarrow> error option"
  pods_List :: "nat \<Rightarrow> string \<Rightarrow> string list \<times> error option"
  namespaces_Create :: "nat \<Rightarrow> NamespaceObj \<Rightarrow> error option"
  os_ReadFile :: "nat \<Rightarrow> string \<Rightarrow> bytes \<times> error option"
  helmclient_NewClientFromKubeConf :: "nat \<Rightarrow> KubeConfClientOptions \<Rightarrow> error option"
  client_AddOrUpdateChartRepo :: "nat \<Rightarrow> KubeConfClientOptions \<Rightarrow> Entry \<Rightarrow> error option"
  client_InstallOrUpgradeChart :: "nat \<Rightarrow> KubeConfClientOptions \<Rightarrow> ChartSpec \<Rightarrow> error option"
  client_InstallChart :: "nat \<Rightarrow> KubeConfClientOptions \<Rightarrow> ChartSpec \<Rightarrow> error option"
  net_Dial :: "nat \<Rightarrow> string \<Rightarrow> string \<Rightarrow> string \<times> error option"

text \<open>The files embedded at build time (\<^verbatim>\<open>//go:embed values/...\<close>). Their contents
  are data, and a parameter of the model.\<close>

record embedded =
  CiliumYaml :: string
  RookOperatorYaml :: string
  CephClusterYaml :: string
  GitOpsYaml :: string

text \<open>The program state: the package-level variable \<^verbatim>\<open>kubeConfig\<close>, the number of
  collaborator calls made, and the trace.\<close>

record state =
  kubeConfig :: bytes
  tick :: nat
  trace :: "event list"

definition init_state :: state where
  "init_state = \<lparr>kubeConfig = [], tick = 0, trace = []\<rparr>"

text \<open>A step either ends the process (\<^verbatim>\<open>log.Fatalf\<close>) or yields a value.\<close>

datatype 'a outcome = Fatal state | Ok 'a state

section \<open>Primitive effects\<close>

definition called :: "event \<Rightarrow> state \<Rightarrow> state" where
  "called e s = s\<lparr>tick := Suc (tick s), trace := trace s @ [e]\<rparr>"

definition emit :: "event \<Rightarrow> state \<Rightarrow> state" where
  "emit e s = s\<lparr>trace := trace s @ [e]\<rparr>"

definition log_Println :: "string \<Rightarrow> state \<Rightarrow> state" where
  "log_Println msg s = emit (Log msg []) s"

definition log_Printf :: "string \<Rightarrow> arg list \<Rightarrow> state \<Rightarrow> state" where
  "log_Printf fmt args s = emit (Log fmt args) s"

text \<open>\<^verbatim>\<open>log.Fatalf\<close> is \<^verbatim>\<open>Printf\<close> followed by \<^verbatim>\<open>os.Exit(1)\<close>.\<close>

definition log_Fatalf :: "string \<Rightarrow> arg list \<Rightarrow> state \<Rightarrow> state" where
  "log_Fatalf fmt args s = emit (Exit 1) (emit (Log fmt args) s)"

definition time_Sleep :: "Duration \<Rightarrow> state \<Rightarrow> state" where
  "time_Sleep d s = emit (Sleep d) s"

section \<open>The command runner\<close>

text \<open>
  \<^verbatim>\<open>exec.Cmd\<close> with the two writers the program sets. A writer is a reference to a
  \<^verbatim>\<open>strings.Builder\<close>; the builders live in a store, so that two writers that are the
  same reference write to the same builder.
\<close>

record Cmd =
  cmd_Path :: string
  cmd_Args :: "string list"
  cmd_Stdout :: nat
  cmd_Stderr :: nat

type_synonym builders = "nat \<Rightarrow> string"

definition writer_of :: "Cmd \<Rightarrow> stream \<Rightarrow> nat" where
  "writer_of cmd st = (case st of Stdout \<Rightarrow> cmd_Stdout cmd | Stderr \<Rightarrow> cmd_Stderr cmd)"

definition write_chunk :: "Cmd \<Rightarrow> builders \<Rightarrow> stream \<times> string \<Rightarrow> builders" where
  "write_chunk cmd h c = h(writer_of cmd (fst c) := h (writer_of cmd (fst c)) @ snd c)"

text \<open>\<^verbatim>\<open>(*exec.Cmd).Run\<close> of the standard library: it starts the process and waits
  for it; every chunk the process writes is appended to the writer of its stream; the
  error is nil exactly when the process started and exited with status 0.\<close>

definition cmd_Run :: "process \<Rightarrow> Cmd \<Rightarrow> builders \<Rightarrow> builders \<times> error option" where
  "cmd_Run p cmd h =
     (case p of
        LaunchFailure e \<Rightarrow> (h, Some e)
      | Exited chunks status \<Rightarrow>
          (foldl (write_chunk cmd) h chunks,
           if status = 0 then None else Some (ExitError status)))"

text \<open>\<^verbatim>\<open>RunCommand\<close> (main.go, lines 332-339). The builder \<^verbatim>\<open>out\<close> is reference 0 of
  a fresh store.\<close>

definition RunCommand ::
  "world \<Rightarrow> string \<Rightarrow> string list \<Rightarrow> state \<Rightarrow> (string \<times> error option) \<times> state" where
  "RunCommand w command args s =
     (let out = 0;
          cmd = \<lparr>cmd_Path = command, cmd_Args = args, cmd_Stdout = out, cmd_Stderr = out\<rparr>;
          (h, err) = cmd_Run (exec_Command w (tick s) command args) cmd (\<lambda>_. [])
      in ((h out, err), called (ExecRun command args (h out) err) s))"

section \<open>The readiness prober\<close>

text \<open>The loop of main.go, lines 65-75. It has no bound, so it is a partial function:
  \<open>None\<close> is the loop that never ends.\<close>

definition not_ready :: "string list \<times> error option \<Rightarrow> bool" where
  "not_ready r = (snd r \<noteq> None \<or> length (fst r) = 0)"

partial_function (option) waitReady :: "world \<Rightarrow> state \<Rightarrow> state option" where
  "waitReady w s =
     (let r = pods_List w (tick s) ''kube-system'';
          s1 = called (PodsList ''kube-system'' (fst r) (snd r)) s
      in if not_ready r
         then waitReady w
                (time_Sleep (time_Second * 10)
                  (log_Printf ''Kubernetes not yet ready: %s\<newline>'' [AErr (snd r)] s1))
         else Some (log_Println ''Kubernetes ready'' s1))"

section \<open>The Helm client, with its cached credentials\<close>

text \<open>\<^verbatim>\<open>initKubeConf\<close> (main.go, lines 290-300): the file is read when the cached
  blob is empty.\<close>

definition initKubeConf :: "world \<Rightarrow> state \<Rightarrow> unit outcome" where
  "initKubeConf w s =
     (if length (kubeConfig s) = 0
      then (let r = os_ReadFile w (tick s) ''/etc/kubernetes/admin.conf'';
                s = called (ReadFile ''/etc/kubernetes/admin.conf'' (fst r) (snd r)) s
            in if snd r \<noteq> None
               then Fatal (log_Fatalf ''Failed to read kubeconfig file: %s\<newline>'' [AErr (snd r)] s)
               else Ok () (s\<lparr>kubeConfig := fst r\<rparr>))
      else Ok () s)"

text \<open>\<^verbatim>\<open>helmClientForNs\<close> (lines 302-317). It returns the client and the error of
  the constructor.\<close>

definition helmClientForNs ::
  "world \<Rightarrow> string \<Rightarrow> state \<Rightarrow> (KubeConfClientOptions \<times> error option) outcome" where
  "helmClientForNs w ns s =
     (case initKubeConf w s of
        Fatal s \<Rightarrow> Fatal s
      | Ok u s \<Rightarrow>
          (let kubeConfOptions =
                 \<lparr>opt_Namespace = ns,
                  RepositoryCache = ''/tmp/.helmcache'',
                  RepositoryConfig = ''/tmp/.helmrepo'',
                  Debug = False,
                  Linting = True,
                  KubeContext = [],
                  KubeConfig = kubeConfig s\<rparr>;
               err = helmclient_NewClientFromKubeConf w (tick s) kubeConfOptions
           in Ok (kubeConfOptions, err) (called (NewClientFromKubeConf kubeConfOptions err) s)))"

text \<open>\<^verbatim>\<open>InstallSpecWithNSClient\<close> (lines 319-330).\<close>

definition InstallSpecWithNSClient ::
  "world \<Rightarrow> string \<Rightarrow> ChartSpec \<Rightarrow> state \<Rightarrow> error option outcome" where
  "InstallSpecWithNSClient w ns spec s =
     (case helmClientForNs w ns s of
        Fatal s \<Rightarrow> Fatal s
      | Ok r s \<Rightarrow>
          (if snd r \<noteq> None then Ok (snd r) s
           else (let err = client_InstallChart w (tick s) (fst r) spec;
                     s = called (InstallChart (fst r) spec err) s
                 in if err \<noteq> None then Ok err s else Ok None s)))"

text \<open>\<^verbatim>\<open>GetDefaultIP\<close> (lines 341-351), composed with the \<^verbatim>\<open>String()\<close> that
  \<^verbatim>\<open>main\<close> applies to its result. The deferred \<^verbatim>\<open>conn.Close()\<close> runs on return.\<close>

definition GetDefaultIP :: "world \<Rightarrow> state \<Rightarrow> string outcome" where
  "GetDefaultIP w s =
     (let r = net_Dial w (tick s) ''udp'' ''1.1.1.1:80'';
          s = called (NetDial ''udp'' ''1.1.1.1:80'' (fst r) (snd r)) s
      in if snd r \<noteq> None
         then Fatal (log_Fatalf ''Failed to get default ip: %s'' [AErr (snd r)] s)
         else Ok (fst r) (emit ConnClose s))"

section \<open>Strings\<close>

text \<open>
  \<^verbatim>\<open>strings.Replace(s, old, new, n)\<close> of the standard library, for a non-empty
  \<open>old\<close> and \<open>n \<ge> 0\<close>: the first \<open>n\<close> non-overlapping instances of \<open>old\<close>, found
  from the left, are replaced by \<open>new\<close>. The program's one call has the literal
  \<^verbatim>\<open>K8SHOST\<close> for \<open>old\<close> and \<open>n = 1\<close>; for an empty \<open>old\<close>, where Go inserts
  \<open>new\<close> between the characters, the model returns \<open>s\<close> and is not used.
\<close>

function strings_Replace :: "string \<Rightarrow> string \<Rightarrow> string \<Rightarrow> nat \<Rightarrow> string" where
  "strings_Replace s old new n =
     (if n = 0 \<or> s = [] \<or> old = [] then s
      else if prefix old s
           then new @ strings_Replace (drop (length old) s) old new (n - 1)
           else hd s # strings_Replace (tl s) old new n)"
  by pat_completeness auto
termination
  by (relation "measure (\<lambda>(s, old, new, n). length s)") auto

section \<open>The pipeline\<close>

text \<open>The shell command lines of \<^verbatim>\<open>main\<close>, named.\<close>

definition enableKubeletCmd :: string where
  "enableKubeletCmd = ''systemctl enable --now kubelet crio''"

definition clearTaintCmd :: string where
  "clearTaintCmd =
     ''kubectl taint nodes $(hostname -f) node-role.kubernetes.io/control-plane=master:NoSchedule- --kubeconfig='/etc/kubernetes/admin.conf'' @ [CHR 0x27]"

definition gatewayCRDsCmd :: string where
  "gatewayCRDsCmd =
     ''kubectl apply --kubeconfig='/etc/kubernetes/admin.conf' -f https://raw.githubusercontent.com/kubernetes-sigs/gateway-api/v0.7.1/config/crd/standard/gateway.networking.k8s.io_gatewayclasses.yaml -f https://raw.githubusercontent.com/kubernetes-sigs/gateway-api/v0.7.1/config/crd/standard/gateway.networking.k8s.io_gateways.yaml -f https://raw.githubusercontent.com/kubernetes-sigs/gateway-api/v0.7.1/config/crd/standard/gateway.networking.k8s.io_httproutes.yaml -f https://raw.githubusercontent.com/kubernetes-sigs/gateway-api/v0.7.1/config/crd/standard/gateway.networking.k8s.io_referencegrants.yaml -f https://raw.githubusercontent.com/kubernetes-sigs/gateway-api/v0.7.1/config/crd/experimental/gateway.networking.k8s.io_tlsroutes.yaml''"

definition rookOverridesCmd :: string where
  "rookOverridesCmd =
     ''kubectl apply --kubeconfig='/etc/kubernetes/admin.conf' -f /root/rook-overrides.yaml''"

definition defaultPoliciesCmd :: string where
  "defaultPoliciesCmd =
     ''kubectl apply --kubeconfig='/etc/kubernetes/admin.conf' -f /root/default-policies.yaml''"

text \<open>The repository entries, namespaces and chart specs of \<^verbatim>\<open>main\<close>, under the names
  of its local variables.\<close>

definition ciliumRepo :: Entry where
  "ciliumRepo = \<lparr>Name = ''cilium'', URL = ''https://helm.cilium.io/''\<rparr>"

definition kyvernoRepo :: Entry where
  "kyvernoRepo = \<lparr>Name = ''kyverno'', URL = ''https://kyverno.github.io/kyverno/''\<rparr>"

definition rookRepo :: Entry where
  "rookRepo = \<lparr>Name = ''rook'', URL = ''https://charts.rook.io/release''\<rparr>"

definition gitopsRepo :: Entry where
  "gitopsRepo = \<lparr>Name = ''gitops'', URL = ''https://helm.gitops.weave.works/''\<rparr>"

definition ciliumSpec :: "embedded \<Rightarrow> string \<Rightarrow> ChartSpec" where
  "ciliumSpec emb defaultIp =
     \<lparr>ReleaseName = ''cilium'',
      ChartName = ''cilium/cilium'',
      Namespace = ''kube-system'',
      UpgradeCRDs = True,
      Wait = True,
      WaitForJobs = True,
      Timeout = time_Minute * 7,
      Version = ''v1.14.0'',
      ValuesYaml = strings_Replace (CiliumYaml emb) ''K8SHOST'' defaultIp 1\<rparr>"

definition kyvNsSpec :: NamespaceObj where
  "kyvNsSpec =
     \<lparr>Kind = ''namespace'', APIVersion = ''v1'', meta_Name = ''kyverno'', meta_Labels = []\<rparr>"

definition kyvernoSpec :: ChartSpec where
  "kyvernoSpec =
     \<lparr>ReleaseName = ''kyverno'',
      ChartName = ''kyverno/kyverno'',
      Namespace = ''kyverno'',
      UpgradeCRDs = True,
      Wait = True,
      WaitForJobs = True,
      Timeout = time_Minute * 4,
      Version = [],
      ValuesYaml = []\<rparr>"

definition rookNsSpec :: NamespaceObj where
  "rookNsSpec =
     \<lparr>Kind = ''namespace'', APIVersion = ''v1'', meta_Name = ''rook-ceph'',
      meta_Labels = [(''pod-security.kubernetes.io/enforce'', ''privileged'')]\<rparr>"

definition rookOpSpec :: "embedded \<Rightarrow> ChartSpec" where
  "rookOpSpec emb =
     \<lparr>ReleaseName = ''rook-ceph'',
      ChartName = ''rook/rook-ceph'',
      Namespace = ''rook-ceph'',
      UpgradeCRDs = True,
      Wait = True,
      WaitForJobs = True,
      Timeout = time_Minute * 2,
      Version = [],
      ValuesYaml = RookOperatorYaml emb\<rparr>"

definition rookClusterSpec :: "embedded \<Rightarrow> ChartSpec" where
  "rookClusterSpec emb =
     \<lparr>ReleaseName = ''rook-ceph-cluster'',
      ChartName = ''rook/rook-ceph-cluster'',
      Namespace = ''rook-ceph'',
      UpgradeCRDs = True,
      Wait = True,
      WaitForJobs = True,
      Timeout = time_Minute * 5,
      Version = [],
      ValuesYaml = CephClusterYaml emb\<rparr>"

definition gitopsNsSpec :: NamespaceObj where
  "gitopsNsSpec =
     \<lparr>Kind = ''namespace'', APIVersion = ''v1'', meta_Name = ''weave-gitops'', meta_Labels = []\<rparr>"

definition gitopsSpec :: "embedded \<Rightarrow> ChartSpec" where
  "gitopsSpec emb =
     \<lparr>ReleaseName = ''weave-gitops'',
      ChartName = ''gitops/weave-gitops'',
      Namespace = ''weave-gitops'',
      UpgradeCRDs = False,
      Wait = True,
      WaitForJobs = True,
      Timeout = time_Minute * 15,
      Version = [],
      ValuesYaml = GitOpsYaml emb\<rparr>"

text \<open>
  \<^verbatim>\<open>main\<close> (lines 36-288) is one function; it is cut here at its blank lines into the
  blocks it consists of, each from a state to an outcome, and composed again below.
  Lines 37-63: the container runtime and kubelet, the control plane, the API client.
\<close>

definition main_boot :: "world \<Rightarrow> state \<Rightarrow> unit outcome" where
  "main_boot w s =
     (let s = log_Println ''We're in!'' s;
          s = log_Println ''Enabling and starting Kubelet and Cri-o'' s;
          ((enableKubeletOut, err), s) = RunCommand w ''bash'' [''-c'', enableKubeletCmd] s
      in if err \<noteq> None
         then Fatal (log_Fatalf ''Unable to enable kubelet and crio: %s\<newline>'' [AErr err]
                      (log_Printf ''Systemctl output: %s\<newline>'' [AStr enableKubeletOut] s))
         else
     (let s = log_Println ''Kubelet and Cri-o started'' s;
          s = log_Println ''Initializing Kubernetes Cluster'' s;
          ((kubeadmOut, err), s) =
             RunCommand w ''kubeadm'' [''init'', ''--config'', ''/root/clusterconfig.yaml''] s
      in if err \<noteq> None
         then Fatal (log_Fatalf ''Kubeadm output: %s\<newline>'' [AStr kubeadmOut]
                      (log_Printf ''Failed to run kubeadm: %s\<newline>'' [AErr err] s))
         else
     (let err = clientcmd_BuildConfigFromFlags w (tick s) [] ''/etc/kubernetes/admin.conf'';
          s = called (BuildConfigFromFlags [] ''/etc/kubernetes/admin.conf'' err) s
      in if err \<noteq> None
         then Fatal (log_Fatalf ''Failed to parse kubernetes config: %s\<newline>'' [AErr err] s)
         else
     (let err = kubernetes_NewForConfig w (tick s);
          s = called (NewForConfig err) s
      in if err \<noteq> None
         then Fatal (log_Fatalf ''Failed to create kubernetes client: %s\<newline>'' [AErr err] s)
         else Ok () s))))"

text \<open>Lines 77-90: the taint and the Gateway CRDs.\<close>

definition main_untaint_crds :: "world \<Rightarrow> state \<Rightarrow> unit outcome" where
  "main_untaint_crds w s =
     (let s = log_Println ''Untainting node'' s;
          ((clearTaintOut, err), s) = RunCommand w ''bash'' [''-c'', clearTaintCmd] s
      in if err \<noteq> None
         then Fatal (log_Fatalf ''Kubectl output: %s\<newline>'' [AStr clearTaintOut]
                      (log_Printf ''Failed to clear master node taint: %s\<newline>'' [AErr err] s))
         else
     (let s = log_Println ''Creating Gateway CRDs'' s;
          ((gatewayCRDsOut, err), s) = RunCommand w ''bash'' [''-c'', gatewayCRDsCmd] s
      in if err \<noteq> None
         then Fatal (log_Fatalf ''Kubectl output: %s\<newline>'' [AStr gatewayCRDsOut]
                      (log_Printf ''Failed to apply gateway CRDs'' [] s))
         else Ok () s))"

text \<open>Lines 92-133: the Helm client for namespace "default" and the four chart
  repositories. The client is the value of the block.\<close>

definition main_repos :: "world \<Rightarrow> state \<Rightarrow> KubeConfClientOptions outcome" where
  "main_repos w s =
     (let s = log_Println ''Adding Helm Repos'' s
      in case helmClientForNs w ''default'' s of
        Fatal s \<Rightarrow> Fatal s
      | Ok r s \<Rightarrow>
     (let helmClient = fst r; err = snd r
      in if err \<noteq> None
         then Fatal (log_Fatalf ''Failed to create helm client: %s\<newline>'' [AErr err] s)
         else
     (let err = client_AddOrUpdateChartRepo w (tick s) helmClient ciliumRepo;
          s = called (AddOrUpdateChartRepo helmClient ciliumRepo err) s
      in if err \<noteq> None
         then Fatal (log_Fatalf ''Failed to add Cilium Helm chart: %s\<newline>'' [AErr err] s)
         else
     (let err = client_AddOrUpdateChartRepo w (tick s) helmClient kyvernoRepo;
          s = called (AddOrUpdateChartRepo helmClient kyvernoRepo err) s
      in if err \<noteq> None
         then Fatal (log_Fatalf ''Failed to add Kyverno Helm chart: %s\<newline>'' [AErr err] s)
         else
     (let err = client_AddOrUpdateChartRepo w (tick s) helmClient rookRepo;
          s = called (AddOrUpdateChartRepo helmClient rookRepo err) s
      in if err \<noteq> None
         then Fatal (log_Fatalf ''Failed to add Rook Ceph Helm chart: %s\<newline>'' [AErr err] s)
         else
     (let err = client_AddOrUpdateChartRepo w (tick s) helmClient gitopsRepo;
          s = called (AddOrUpdateChartRepo helmClient gitopsRepo err) s
      in if err \<noteq> None
         then Fatal (log_Fatalf ''Failed to add Weave GitOps Helm chart: %s\<newline>'' [AErr err] s)
         else Ok helmClient s))))))"

text \<open>Lines 135-153: the host address and the Cilium chart, installed through the
  client of the block before.\<close>

definition main_cilium ::
  "embedded \<Rightarrow> world \<Rightarrow> KubeConfClientOptions \<Rightarrow> state \<Rightarrow> unit outcome" where
  "main_cilium emb w helmClient s =
     (case GetDefaultIP w s of
        Fatal s \<Rightarrow> Fatal s
      | Ok defaultIp s \<Rightarrow>
     (let s = log_Printf ''Default IP: %s\<newline>'' [AStr defaultIp] s;
          s = log_Println ''Deploying Cilium'' s;
          err = client_InstallOrUpgradeChart w (tick s) helmClient (ciliumSpec emb defaultIp);
          s = called (InstallOrUpgradeChart helmClient (ciliumSpec emb defaultIp) err) s
      in if err \<noteq> None
         then Fatal (log_Fatalf ''Failed to install Cilium: %s\<newline>'' [AErr err] s)
         else Ok () s))"

text \<open>Lines 155-185: the Kyverno namespace and chart.\<close>

definition main_kyverno :: "world \<Rightarrow> state \<Rightarrow> unit outcome" where
  "main_kyverno w s =
     (let s = log_Println ''Creating Kyverno namespace'' s;
          err = namespaces_Create w (tick s) kyvNsSpec;
          s = called (NamespacesCreate kyvNsSpec err) s
      in if err \<noteq> None
         then Fatal (log_Fatalf ''Failed to create kyverno namespace: %s\<newline>'' [AErr err] s)
         else
     (let s = log_Println ''Deploying Kyverno'' s
      in case InstallSpecWithNSClient w ''kyverno'' kyvernoSpec s of
        Fatal s \<Rightarrow> Fatal s
      | Ok err s \<Rightarrow>
          if err \<noteq> None
          then Fatal (log_Fatalf ''Failed to install Kyverno: %s\<newline>'' [AErr err] s)
          else Ok () s))"

text \<open>Lines 187-247: the rook-ceph namespace, the overrides, the operator chart and the
  cluster chart.\<close>

definition main_rook :: "embedded \<Rightarrow> world \<Rightarrow> state \<Rightarrow> unit outcome" where
  "main_rook emb w s =
     (let s = log_Println ''Creating rook-ceph namespace'' s;
          err = namespaces_Create w (tick s) rookNsSpec;
          s = called (NamespacesCreate rookNsSpec err) s
      in if err \<noteq> None
         then Fatal (log_Fatalf ''Failed to create rook-ceph namespace: %s\<newline>'' [AErr err] s)
         else
     (let ((rookOROut, err), s) = RunCommand w ''bash'' [''-c'', rookOverridesCmd] s
      in if err \<noteq> None
         then Fatal (log_Fatalf ''Kubectl output: %s\<newline>'' [AStr rookOROut]
                      (log_Printf ''Failed to create rook overrides: %s\<newline>'' [AErr err] s))
         else
     (case helmClientForNs w ''rook-ceph'' s of
        Fatal s \<Rightarrow> Fatal s
      | Ok r s \<Rightarrow>
     (let rookHelm = fst r; err = snd r
      in if err \<noteq> None
         then Fatal (log_Fatalf ''Failed to create rook helm client'' [] s)
         else
     (let s = log_Println ''Deploying Rook Ceph operator'' s;
          err = client_InstallOrUpgradeChart w (tick s) rookHelm (rookOpSpec emb);
          s = called (InstallOrUpgradeChart rookHelm (rookOpSpec emb) err) s
      in if err \<noteq> None
         then Fatal (log_Fatalf ''Failed to install rook-ceph operator: %s\<newline>'' [AErr err] s)
         else
     (let s = log_Println ''Deploying Rook Ceph cluster'' s;
          err = client_InstallOrUpgradeChart w (tick s) rookHelm (rookClusterSpec emb);
          s = called (InstallOrUpgradeChart rookHelm (rookClusterSpec emb) err) s
      in if err \<noteq> None
         then Fatal (log_Fatalf ''Failed to install rook-ceph-cluster: %s\<newline>'' [AErr err] s)
         else Ok () s))))))"

text \<open>Lines 249-279: the weave-gitops namespace and chart.\<close>

definition main_gitops :: "embedded \<Rightarrow> world \<Rightarrow> state \<Rightarrow> unit outcome" where
  "main_gitops emb w s =
     (let s = log_Println ''Creating weave-gitops namespace'' s;
          err = namespaces_Create w (tick s) gitopsNsSpec;
          s = called (NamespacesCreate gitopsNsSpec err) s
      in if err \<noteq> None
         then Fatal (log_Fatalf ''Failed to create weave-gitops namespace: %s\<newline>'' [AErr err] s)
         else
     (let s = log_Println ''Deploying Weave GitOps'' s
      in case InstallSpecWithNSClient w ''weave-gitops'' (gitopsSpec emb) s of
        Fatal s \<Rightarrow> Fatal s
      | Ok err s \<Rightarrow>
          if err \<noteq> None
          then Fatal (log_Fatalf ''Failed to install weave-gitops: %s\<newline>'' [AErr err] s)
          else Ok () s))"

text \<open>Lines 281-287: the default policies.\<close>

definition main_policies :: "world \<Rightarrow> state \<Rightarrow> unit outcome" where
  "main_policies w s =
     (let s = log_Println ''Installing default policies'' s;
          ((defPolOut, err), s) = RunCommand w ''bash'' [''-c'', defaultPoliciesCmd] s
      in if err \<noteq> None
         then Fatal (log_Fatalf ''Kubectl output: %s\<newline>'' [AStr defPolOut]
                      (log_Printf ''Failed to install default kyverno policies: %s\<newline>''
                        [AErr err] s))
         else Ok () (log_Println ''Successfully initialized Kubernetes Cluster'' s))"

text \<open>Sequencing: a block that ended the process ends the run.\<close>

definition andThen :: "'a outcome \<Rightarrow> ('a \<Rightarrow> state \<Rightarrow> 'b outcome) \<Rightarrow> 'b outcome" where
  "andThen r f = (case r of Fatal s \<Rightarrow> Fatal s | Ok a s \<Rightarrow> f a s)"

text \<open>Lines 77-287, everything after the readiness loop.\<close>

definition main_addons :: "embedded \<Rightarrow> world \<Rightarrow> state \<Rightarrow> unit outcome" where
  "main_addons emb w s =
     andThen (main_untaint_crds w s) (\<lambda>_ s.
     andThen (main_repos w s) (\<lambda>helmClient s.
     andThen (main_cilium emb w helmClient s) (\<lambda>_ s.
     andThen (main_kyverno w s) (\<lambda>_ s.
     andThen (main_rook emb w s) (\<lambda>_ s.
     andThen (main_gitops emb w s) (\<lambda>_ s.
     main_policies w s))))))"

text \<open>
  The run of the program: the exit status and the final state, or \<open>None\<close> when the
  readiness loop never ends. \<^verbatim>\<open>log.Fatalf\<close> exits with status 1; returning from
  \<^verbatim>\<open>main\<close> exits with status 0.
\<close>

definition main :: "embedded \<Rightarrow> world \<Rightarrow> (int \<times> state) option" where
  "main emb w =
     (case main_boot w init_state of
        Fatal s \<Rightarrow> Some (1, s)
      | Ok u s \<Rightarrow>
          (case waitReady w s of
             None \<Rightarrow> None
           | Some s \<Rightarrow>
               (case main_addons emb w s of
                  Fatal s \<Rightarrow> Some (1, s)
                | Ok u s \<Rightarrow> Some (0, s))))"

section \<open>Test doubles\<close>

text \<open>A world in which every collaborator succeeds at once.\<close>

definition steady_world :: world where
  "steady_world =
     \<lparr>exec_Command = (\<lambda>t c a. Exited [(Stdout, ''done'')] 0),
      clientcmd_BuildConfigFromFlags = (\<lambda>t m p. None),
      kubernetes_NewForConfig = (\<lambda>t. None),
      pods_List = (\<lambda>t ns. ([''etcd''], None)),
      namespaces_Create = (\<lambda>t n. None),
      os_ReadFile = (\<lambda>t p. (''apiVersion: v1'', None)),
      helmclient_NewClientFromKubeConf = (\<lambda>t opts. None),
      client_AddOrUpdateChartRepo = (\<lambda>t c e. None),
      client_InstallOrUpgradeChart = (\<lambda>t c spec. None),
      client_InstallChart = (\<lambda>t c spec. None),
      net_Dial = (\<lambda>t n a. (''10.0.0.5'', None))\<rparr>"

text \<open>The pod listing fails with a transport error on the call at tick \<open>t0\<close>,
  is empty on the next one, and lists a pod from then on.\<close>

definition flaky_world :: "nat \<Rightarrow> world" where
  "flaky_world t0 =
     steady_world\<lparr>pods_List := (\<lambda>t ns.
        if t = t0 then ([], Some (Error ''connection refused''))
        else if t = Suc t0 then ([], None)
        else ([''etcd''], None))\<rparr>"

text \<open>Contents for the embedded files.\<close>

definition sample_embedded :: embedded where
  "sample_embedded =
     \<lparr>CiliumYaml = ''k8sServiceHost: K8SHOST'',
      RookOperatorYaml = ''crds: {enabled: true}'',
      CephClusterYaml = ''cephClusterSpec: {}'',
      GitOpsYaml = ''adminUser: {create: true}''\<rparr>"

text \<open>The credentials file is there and empty, and a Helm client constructed without
  credentials cannot install a chart.\<close>

definition no_credentials_world :: world where
  "no_credentials_world =
     steady_world\<lparr>os_ReadFile := (\<lambda>t p. ([], None)),
       client_InstallOrUpgradeChart := (\<lambda>t c spec.
         if KubeConfig c = [] then Some (Error ''no configuration has been provided'') else None),
       client_InstallChart := (\<lambda>t c spec.
         if KubeConfig c = [] then Some (Error ''no configuration has been provided'') else None)\<rparr>"

text \<open>The storage-operator chart does not become ready in time; and, in a second world,
  the namespace of the policy engine is already there.\<close>

definition operator_timeout_world :: world where
  "operator_timeout_world =
     steady_world\<lparr>client_InstallOrUpgradeChart := (\<lambda>t c spec.
        if ReleaseName spec = ''rook-ceph'' then Some (Error ''context deadline exceeded'')
        else None)\<rparr>"

definition kyverno_exists_world :: world where
  "kyverno_exists_world =
     steady_world\<lparr>namespaces_Create := (\<lambda>t n.
        if meta_Name n = ''kyverno'' then Some (Error ''namespaces kyverno already exists'')
        else None)\<rparr>"

section \<open>Observations on traces\<close>

fun is_PodsList :: "event \<Rightarrow> bool" where
  "is_PodsList (PodsList ns pods err) = True"
| "is_PodsList _ = False"

fun is_Exit :: "event \<Rightarrow> bool" where
  "is_Exit (Exit c) = True"
| "is_Exit _ = False"

text \<open>A pod listing that succeeded and is not empty.\<close>

fun ready_listing :: "event \<Rightarrow> bool" where
  "ready_listing (PodsList ns pods err) = (err = None \<and> length pods \<noteq> 0)"
| "ready_listing _ = False"

fun is_Sleep :: "event \<Rightarrow> bool" where
  "is_Sleep (Sleep d) = True"
| "is_Sleep _ = False"

text \<open>What a process wrote, to either stream, in the order written; and the error of
  a process that could not be started or exited with a status other than 0.\<close>

definition process_output :: "process \<Rightarrow> string" where
  "process_output p =
     (case p of LaunchFailure e \<Rightarrow> [] | Exited chunks status \<Rightarrow> concat (map snd chunks))"

definition process_error :: "process \<Rightarrow> error option" where
  "process_error p =
     (case p of
        LaunchFailure e \<Rightarrow> Some e
      | Exited chunks status \<Rightarrow> if status = 0 then None else Some (ExitError status))"

text \<open>The error value an operation returned; an event that is not a call has none.\<close>

fun err_of :: "event \<Rightarrow> error option" where
  "err_of (ExecRun c a out err) = err"
| "err_of (BuildConfigFromFlags m p err) = err"
| "err_of (NewForConfig err) = err"
| "err_of (PodsList ns pods err) = err"
| "err_of (NamespacesCreate n err) = err"
| "err_of (ReadFile p b err) = err"
| "err_of (NewClientFromKubeConf opts err) = err"
| "err_of (AddOrUpdateChartRepo c e err) = err"
| "err_of (InstallOrUpgradeChart c spec err) = err"
| "err_of (InstallChart c spec err) = err"
| "err_of (NetDial n a ip err) = err"
| "err_of ConnClose = None"
| "err_of (Sleep d) = None"
| "err_of (Log f args) = None"
| "err_of (Exit c) = None"

definition no_error :: "event \<Rightarrow> bool" where
  "no_error e = (err_of e = None)"

fun is_Log :: "event \<Rightarrow> bool" where
  "is_Log (Log f args) = True"
| "is_Log _ = False"

text \<open>The arguments of the log lines of a trace.\<close>

fun logged_args :: "event list \<Rightarrow> arg list" where
  "logged_args [] = []"
| "logged_args (Log f args # es) = args @ logged_args es"
| "logged_args (e # es) = logged_args es"

text \<open>An event halts the run when it is an exit, or an operation other than a pod
  listing that returned an error. A trace is good when nothing in it halts the run.\<close>

definition halts :: "event \<Rightarrow> bool" where
  "halts e = ((err_of e \<noteq> None \<and> \<not> is_PodsList e) \<or> is_Exit e)"

definition good :: "event list \<Rightarrow> bool" where
  "good tr = list_all (\<lambda>e. \<not> halts e) tr"

text \<open>The two operations whose failure is logged without the error value: the Gateway
  CRD command (main.go, line 88) and the construction of the rook-ceph Helm client
  (line 214).\<close>

fun omits_error :: "event \<Rightarrow> bool" where
  "omits_error (ExecRun c a out err) = (c = ''bash'' \<and> a = [''-c'', gatewayCRDsCmd])"
| "omits_error (NewClientFromKubeConf opts err) = (opt_Namespace opts = ''rook-ceph'')"
| "omits_error _ = False"

text \<open>The captured output of a command is among the logged arguments of \<open>post\<close>.\<close>

fun output_logged :: "event \<Rightarrow> event list \<Rightarrow> bool" where
  "output_logged (ExecRun c a out err) post = (AStr out \<in> set (logged_args post))"
| "output_logged _ post = True"

text \<open>After a namespace creation, \<open>post\<close> is the one fatal log line of that namespace
  and the exit.\<close>

fun ns_fatal :: "event \<Rightarrow> event list \<Rightarrow> bool" where
  "ns_fatal (NamespacesCreate ns err) post =
     (post = [Log (''Failed to create '' @ meta_Name ns @ '' namespace: %s\<newline>'') [AErr err], Exit 1])"
| "ns_fatal _ post = True"

text \<open>An aborted trace: the first event that halts the run is a failed operation, and
  what follows it is log lines and the exit with status 1.\<close>

definition aborted :: "event list \<Rightarrow> bool" where
  "aborted tr =
     (case dropWhile (\<lambda>e. \<not> halts e) tr of
        [] \<Rightarrow> False
      | e # post \<Rightarrow>
          err_of e \<noteq> None \<and> post \<noteq> [] \<and> last post = Exit 1 \<and> list_all is_Log (butlast post) \<and>
          output_logged e post \<and> ns_fatal e post \<and>
          (omits_error e \<or> AErr (err_of e) \<in> set (logged_args post)))"

text \<open>The operations of the stages, without what they returned. A Helm operation is
  labelled with the namespace its client handle was constructed for, the dial with the
  address it found. Reads of the credentials file, log lines, sleeps and the exit are
  not stage operations.\<close>

datatype stage_op =
    RunCmd string "string list"
  | BuildConfig string string
  | NewClientset
  | ListPods string
  | CreateNamespace NamespaceObj
  | NewHelmClient string
  | AddRepo string Entry
  | DialOut string string string
  | InstallOrUpgrade string ChartSpec
  | Install string ChartSpec

fun op_of :: "event \<Rightarrow> stage_op list" where
  "op_of (ExecRun c a out err) = [RunCmd c a]"
| "op_of (BuildConfigFromFlags m p err) = [BuildConfig m p]"
| "op_of (NewForConfig err) = [NewClientset]"
| "op_of (PodsList ns pods err) = [ListPods ns]"
| "op_of (NamespacesCreate n err) = [CreateNamespace n]"
| "op_of (NewClientFromKubeConf opts err) = [NewHelmClient (opt_Namespace opts)]"
| "op_of (AddOrUpdateChartRepo c e err) = [AddRepo (opt_Namespace c) e]"
| "op_of (InstallOrUpgradeChart c spec err) = [InstallOrUpgrade (opt_Namespace c) spec]"
| "op_of (InstallChart c spec err) = [Install (opt_Namespace c) spec]"
| "op_of (NetDial n a ip err) = [DialOut n a ip]"
| "op_of _ = []"

definition stage_ops :: "event list \<Rightarrow> stage_op list" where
  "stage_ops tr = concat (map op_of tr)"

text \<open>What a block guarantees: \<open>F\<close> of the final state when it ended the process,
  \<open>Q\<close> of its value and state when it did not.\<close>

definition ensures :: "'a outcome \<Rightarrow> (state \<Rightarrow> bool) \<Rightarrow> ('a \<Rightarrow> state \<Rightarrow> bool) \<Rightarrow> bool" where
  "ensures r F Q = (case r of Fatal s \<Rightarrow> F s | Ok a s \<Rightarrow> Q a s)"

text \<open>The outcome of a run, observed: the exit status and the trace.\<close>

definition exit_status :: "embedded \<Rightarrow> world \<Rightarrow> int option" where
  "exit_status emb w = map_option fst (main emb w)"

definition run_trace :: "embedded \<Rightarrow> world \<Rightarrow> event list" where
  "run_trace emb w = (case main emb w of None \<Rightarrow> [] | Some r \<Rightarrow> trace (snd r))"

text \<open>The reads of the credentials file and the blobs the Helm clients were constructed
  with; and what a cache that works leaves in the trace: at most one read, whose blob is
  the one of every client.\<close>

fun is_ReadFile :: "event \<Rightarrow> bool" where
  "is_ReadFile (ReadFile p b err) = True"
| "is_ReadFile _ = False"

definition file_reads :: "event list \<Rightarrow> event list" where
  "file_reads tr = filter is_ReadFile tr"

fun config_of :: "event \<Rightarrow> bytes list" where
  "config_of (NewClientFromKubeConf opts err) = [KubeConfig opts]"
| "config_of _ = []"

definition client_configs :: "event list \<Rightarrow> bytes list" where
  "client_configs tr = concat (map config_of tr)"

definition read_once :: "event list \<Rightarrow> bool" where
  "read_once tr =
     (length (file_reads tr) \<le> 1 \<and>
      list_all (\<lambda>c. file_reads tr = [ReadFile ''/etc/kubernetes/admin.conf'' c None])
        (client_configs tr))"

text \<open>
  A chart install that succeeded through a client handle constructed with an empty
  credentials blob. The invariants of the cache: no read yet and no client; one
  successful read, whose blob is the cached one and the one of every client; and, once a
  chart has been installed, a cached blob that is not empty.
\<close>

fun without_credentials :: "event \<Rightarrow> bool" where
  "without_credentials (InstallOrUpgradeChart c spec err) = (err = None \<and> KubeConfig c = [])"
| "without_credentials (InstallChart c spec err) = (err = None \<and> KubeConfig c = [])"
| "without_credentials _ = False"

definition installed_without_credentials :: "event list \<Rightarrow> bool" where
  "installed_without_credentials tr = list_ex without_credentials tr"

definition fresh :: "state \<Rightarrow> bool" where
  "fresh s = (kubeConfig s = [] \<and> file_reads (trace s) = [] \<and> client_configs (trace s) = [])"

definition holds_blob :: "state \<Rightarrow> bool" where
  "holds_blob s =
     (file_reads (trace s) = [ReadFile ''/etc/kubernetes/admin.conf'' (kubeConfig s) None] \<and>
      list_all (\<lambda>c. c = kubeConfig s) (client_configs (trace s)))"

definition served :: "state \<Rightarrow> bool" where
  "served s = (installed_without_credentials (trace s) \<or> (kubeConfig s \<noteq> [] \<and> holds_blob s))"

definition lawful :: "state \<Rightarrow> bool" where
  "lawful s = (installed_without_credentials (trace s) \<or> read_once (trace s))"

text \<open>
  The dials and the installs of the release "cilium" of a trace, and their shape in a
  run: nothing, or one dial, or one successful dial followed by one install-or-upgrade
  whose spec is \<^verbatim>\<open>ciliumSpec\<close> of the address the dial found.
\<close>

fun is_NetDial :: "event \<Rightarrow> bool" where
  "is_NetDial (NetDial n a ip err) = True"
| "is_NetDial _ = False"

fun is_cilium_install :: "event \<Rightarrow> bool" where
  "is_cilium_install (InstallOrUpgradeChart c spec err) = (ReleaseName spec = ''cilium'')"
| "is_cilium_install (InstallChart c spec err) = (ReleaseName spec = ''cilium'')"
| "is_cilium_install _ = False"

definition dial_or_cilium :: "event \<Rightarrow> bool" where
  "dial_or_cilium e = (is_NetDial e \<or> is_cilium_install e)"

definition dial_and_cilium :: "event list \<Rightarrow> event list" where
  "dial_and_cilium tr = filter dial_or_cilium tr"

fun dial_ip :: "event \<Rightarrow> string option" where
  "dial_ip (NetDial n a ip err) = (if err = None then Some ip else None)"
| "dial_ip _ = None"

fun installed_spec :: "event \<Rightarrow> ChartSpec option" where
  "installed_spec (InstallOrUpgradeChart c spec err) = Some spec"
| "installed_spec _ = None"

definition dial_then_cilium :: "embedded \<Rightarrow> event list \<Rightarrow> bool" where
  "dial_then_cilium emb xs =
     (case xs of
        [] \<Rightarrow> True
      | [d] \<Rightarrow> is_NetDial d
      | [d, i] \<Rightarrow>
          (case dial_ip d of
             None \<Rightarrow> False
           | Some ip \<Rightarrow> installed_spec i = Some (ciliumSpec emb ip))
      | _ \<Rightarrow> False)"

text \<open>The chart operations among the stage operations; for an install, the namespace of
  the client handle it went through, the release, and the namespace the chart spec targets.\<close>

fun is_chart_op :: "stage_op \<Rightarrow> bool" where
  "is_chart_op (AddRepo c e) = True"
| "is_chart_op (InstallOrUpgrade c spec) = True"
| "is_chart_op (Install c spec) = True"
| "is_chart_op _ = False"

fun is_install_op :: "stage_op \<Rightarrow> bool" where
  "is_install_op (InstallOrUpgrade c spec) = True"
| "is_install_op (Install c spec) = True"
| "is_install_op _ = False"

fun install_of :: "stage_op \<Rightarrow> (string \<times> string \<times> string) list" where
  "install_of (InstallOrUpgrade c spec) = [(c, ReleaseName spec, Namespace spec)]"
| "install_of (Install c spec) = [(c, ReleaseName spec, Namespace spec)]"
| "install_of _ = []"

definition handles_and_targets :: "stage_op list \<Rightarrow> (string \<times> string \<times> string) list" where
  "handles_and_targets ops = concat (map install_of ops)"

fun install_ok :: "event \<Rightarrow> bool" where
  "install_ok (InstallOrUpgradeChart c spec err) =
     (if ReleaseName spec = ''cilium''
      then opt_Namespace c = ''default'' \<and> Namespace spec = ''kube-system''
      else opt_Namespace c = Namespace spec)"
| "install_ok (InstallChart c spec err) =
     (if ReleaseName spec = ''cilium''
      then opt_Namespace c = ''default'' \<and> Namespace spec = ''kube-system''
      else opt_Namespace c = Namespace spec)"
| "install_ok _ = True"

section \<open>The readiness prober: proofs\<close>

text \<open>If the listing is not ready at the next \<open>N\<close> ticks and ready at the one
  after, the loop returns, and this is the state it returns.\<close>

lemma waitReady_after:
  "\<forall>k<N. not_ready (pods_List w (tick s + k) ''kube-system'') \<Longrightarrow>
   \<not> not_ready (pods_List w (tick s + N) ''kube-system'') \<Longrightarrow>
   waitReady w s = Some (s\<lparr>tick := tick s + N + 1,
     trace := trace s @
       concat (map (\<lambda>k. [PodsList ''kube-system'' (fst (pods_List w (tick s + k) ''kube-system''))
                            (snd (pods_List w (tick s + k) ''kube-system'')),
                          Log ''Kubernetes not yet ready: %s\<newline>''
                            [AErr (snd (pods_List w (tick s + k) ''kube-system''))],
                          Sleep (time_Second * 10)]) [0..<N]) @
       [PodsList ''kube-system'' (fst (pods_List w (tick s + N) ''kube-system''))
          (snd (pods_List w (tick s + N) ''kube-system'')),
        Log ''Kubernetes ready'' []]\<rparr>)"
proof (induction N arbitrary: s)
  case 0
  then show ?case
    by (subst waitReady.simps)
       (simp add: Let_def called_def log_Println_def emit_def)
next
  case (Suc N)
  let ?s1 = "time_Sleep (time_Second * 10)
               (log_Printf ''Kubernetes not yet ready: %s\<newline>''
                 [AErr (snd (pods_List w (tick s) ''kube-system''))]
                 (called (PodsList ''kube-system'' (fst (pods_List w (tick s) ''kube-system''))
                            (snd (pods_List w (tick s) ''kube-system''))) s))"
  have t: "tick ?s1 = Suc (tick s)"
    by (simp add: time_Sleep_def log_Printf_def emit_def called_def)
  have nr: "not_ready (pods_List w (tick s) ''kube-system'')"
    using Suc.prems(1) by force
  have a: "\<forall>k<N. not_ready (pods_List w (tick ?s1 + k) ''kube-system'')"
    using Suc.prems(1) unfolding t by force
  have b: "\<not> not_ready (pods_List w (tick ?s1 + N) ''kube-system'')"
    using Suc.prems(2) unfolding t by simp
  have "waitReady w s = waitReady w ?s1"
    using nr by (subst waitReady.simps) (simp add: Let_def)
  also note Suc.IH [OF a b]
  finally show ?case
    by (simp add: map_upt_Suc time_Sleep_def log_Printf_def emit_def called_def del: upt_Suc)
qed

text \<open>Conversely, the loop returns only after a ready listing.\<close>

lemma waitReady_Some_ready:
  assumes "waitReady w s = Some s'"
  shows "\<exists>k. \<not> not_ready (pods_List w (tick s + k) ''kube-system'')"
proof (rule waitReady.raw_induct
    [where P = "\<lambda>w s s'. \<exists>k. \<not> not_ready (pods_List w (tick s + k) ''kube-system'')",
     OF _ assms])
  fix f :: "world \<Rightarrow> state \<Rightarrow> state option" and w s s'
  assume IH: "\<And>w s y. f w s = Some y \<Longrightarrow>
    \<exists>k. \<not> not_ready (pods_List w (tick s + k) ''kube-system'')"
  assume body: "(let r = pods_List w (tick s) ''kube-system'';
          s1 = called (PodsList ''kube-system'' (fst r) (snd r)) s
      in if not_ready r
         then f w
                (time_Sleep (time_Second * 10)
                  (log_Printf ''Kubernetes not yet ready: %s\<newline>'' [AErr (snd r)] s1))
         else Some (log_Println ''Kubernetes ready'' s1)) = Some s'"
  show "\<exists>k. \<not> not_ready (pods_List w (tick s + k) ''kube-system'')"
  proof (cases "not_ready (pods_List w (tick s) ''kube-system'')")
    case False
    then have "\<not> not_ready (pods_List w (tick s + 0) ''kube-system'')" by simp
    then show ?thesis by blast
  next
    case True
    with body obtain s1 where f: "f w s1 = Some s'" and t: "tick s1 = Suc (tick s)"
      by (auto simp: Let_def time_Sleep_def log_Printf_def emit_def called_def)
    from IH [OF f] obtain k where "\<not> not_ready (pods_List w (tick s1 + k) ''kube-system'')"
      by blast
    then have "\<not> not_ready (pods_List w (tick s + Suc k) ''kube-system'')"
      using t by simp
    then show ?thesis by blast
  qed
qed

text \<open>The first ready listing, when there is one.\<close>

lemma first_ready:
  assumes "\<not> not_ready (pods_List w (tick s + k) ''kube-system'')"
  obtains N where "\<forall>j<N. not_ready (pods_List w (tick s + j) ''kube-system'')"
    and "\<not> not_ready (pods_List w (tick s + N) ''kube-system'')"
proof -
  let ?P = "\<lambda>j. \<not> not_ready (pods_List w (tick s + j) ''kube-system'')"
  have "?P (LEAST j. ?P j)"
    using assms by (rule LeastI)
  moreover have "\<forall>j<(LEAST j. ?P j). \<not> ?P j"
    using not_less_Least by blast
  ultimately show thesis
    using that by blast
qed

lemma filter_attempts:
  "filter is_PodsList (concat (map (\<lambda>k. [PodsList ns (f k) (g k), Log m (h k), Sleep d]) ks)) =
   map (\<lambda>k. PodsList ns (f k) (g k)) ks"
  by (induction ks) simp_all

lemma filter_sleeps:
  "filter is_Sleep (concat (map (\<lambda>k. [PodsList ns (f k) (g k), Log m (h k), Sleep d]) ks)) =
   map (\<lambda>k. Sleep d) ks"
  by (induction ks) simp_all

lemma filter_exits:
  "filter is_Exit (concat (map (\<lambda>k. [PodsList ns (f k) (g k), Log m (h k), Sleep d]) ks)) = []"
  by (induction ks) simp_all

text \<open>
  Claim C3. If the pod listing answers with a transport error or an empty result on its
  next \<open>N\<close> calls and with a successful non-empty result on the call after them, the
  prober returns, having made exactly \<open>N + 1\<close> attempts: each of the first \<open>N\<close> is
  followed by its log line and a sleep of 10 seconds, the last by the line "Kubernetes
  ready" and nothing else.
\<close>

theorem waitReady_exactly_Suc_N_attempts:
  assumes "\<forall>k<N. not_ready (pods_List w (tick s + k) ''kube-system'')"
    and "\<not> not_ready (pods_List w (tick s + N) ''kube-system'')"
  shows "\<exists>s'. waitReady w s = Some s' \<and>
    trace s' = trace s @
       concat (map (\<lambda>k. [PodsList ''kube-system'' (fst (pods_List w (tick s + k) ''kube-system''))
                            (snd (pods_List w (tick s + k) ''kube-system'')),
                          Log ''Kubernetes not yet ready: %s\<newline>''
                            [AErr (snd (pods_List w (tick s + k) ''kube-system''))],
                          Sleep (time_Second * 10)]) [0..<N]) @
       [PodsList ''kube-system'' (fst (pods_List w (tick s + N) ''kube-system''))
          (snd (pods_List w (tick s + N) ''kube-system'')),
        Log ''Kubernetes ready'' []] \<and>
    length (filter is_PodsList (trace s')) = length (filter is_PodsList (trace s)) + (N + 1) \<and>
    filter is_Sleep (trace s') = filter is_Sleep (trace s) @ replicate N (Sleep (time_Second * 10))"
  using waitReady_after [OF assms]
  by (simp add: filter_attempts filter_sleeps map_replicate_const)

theorem waitReady_exactly_Suc_N_attempts_witness:
  "not_ready (pods_List (flaky_world 0) (tick init_state + 0) ''kube-system'') \<and>
   not_ready (pods_List (flaky_world 0) (tick init_state + 1) ''kube-system'') \<and>
   \<not> not_ready (pods_List (flaky_world 0) (tick init_state + 2) ''kube-system'') \<and>
   (\<exists>s'. waitReady (flaky_world 0) init_state = Some s' \<and>
      length (filter is_PodsList (trace s')) = 3 \<and>
      filter is_Sleep (trace s') = [Sleep (time_Second * 10), Sleep (time_Second * 10)])"
proof -
  have a: "\<forall>k<2. not_ready (pods_List (flaky_world 0) (tick init_state + k) ''kube-system'')"
    by (simp add: flaky_world_def init_state_def not_ready_def)
  have b: "\<not> not_ready (pods_List (flaky_world 0) (tick init_state + 2) ''kube-system'')"
    by (simp add: flaky_world_def init_state_def not_ready_def)
  show ?thesis
    using a b waitReady_exactly_Suc_N_attempts [OF a b]
    by (auto simp: init_state_def numeral_2_eq_2)
qed

lemma ready_attempts:
  "\<forall>k\<in>set ks. not_ready (f k, g k) \<Longrightarrow>
   filter ready_listing (concat (map (\<lambda>k. [PodsList ns (f k) (g k), Log m (h k), Sleep d]) ks)) = []"
  by (induction ks) (auto simp: not_ready_def)

text \<open>
  Claim C4. The loop returns a state exactly when, for some \<open>N\<close>, its first \<open>N\<close>
  attempts find a transport error or an empty listing and the attempt after them finds a
  successful non-empty one; the state it returns holds these \<open>N + 1\<close> attempts in its
  trace and nothing after the line "Kubernetes ready". So the last pod listing of the
  returned trace is successful and non-empty, it is the only such listing the loop made,
  and the loop adds no exit: an error or an empty listing does not end the process, and no
  number of them does. The loop never returns exactly when every attempt would find the
  listing not ready.
\<close>

theorem waitReady_returns_iff_ready:
  "(waitReady w s = Some s' \<longleftrightarrow>
      (\<exists>N. (\<forall>k<N. not_ready (pods_List w (tick s + k) ''kube-system'')) \<and>
           \<not> not_ready (pods_List w (tick s + N) ''kube-system'') \<and>
           s' = s\<lparr>tick := tick s + N + 1,
             trace := trace s @
               concat (map (\<lambda>k. [PodsList ''kube-system''
                                    (fst (pods_List w (tick s + k) ''kube-system''))
                                    (snd (pods_List w (tick s + k) ''kube-system'')),
                                  Log ''Kubernetes not yet ready: %s\<newline>''
                                    [AErr (snd (pods_List w (tick s + k) ''kube-system''))],
                                  Sleep (time_Second * 10)]) [0..<N]) @
               [PodsList ''kube-system'' (fst (pods_List w (tick s + N) ''kube-system''))
                  (snd (pods_List w (tick s + N) ''kube-system'')),
                Log ''Kubernetes ready'' []]\<rparr>)) \<and>
   (waitReady w s = Some s' \<longrightarrow>
      ready_listing (last (filter is_PodsList (trace s'))) \<and>
      length (filter ready_listing (drop (length (trace s)) (trace s'))) = 1 \<and>
      filter is_Exit (trace s') = filter is_Exit (trace s)) \<and>
   (waitReady w s = None \<longleftrightarrow> (\<forall>k. not_ready (pods_List w (tick s + k) ''kube-system'')))"
proof (intro conjI iffI impI)
  assume r: "waitReady w s = Some s'"
  then obtain k where "\<not> not_ready (pods_List w (tick s + k) ''kube-system'')"
    using waitReady_Some_ready by blast
  then obtain N where n: "\<forall>j<N. not_ready (pods_List w (tick s + j) ''kube-system'')"
    "\<not> not_ready (pods_List w (tick s + N) ''kube-system'')"
    by (rule first_ready)
  note e = waitReady_after [OF n]
  from e r n show "\<exists>N. (\<forall>k<N. not_ready (pods_List w (tick s + k) ''kube-system'')) \<and>
           \<not> not_ready (pods_List w (tick s + N) ''kube-system'') \<and>
           s' = s\<lparr>tick := tick s + N + 1,
             trace := trace s @
               concat (map (\<lambda>k. [PodsList ''kube-system''
                                    (fst (pods_List w (tick s + k) ''kube-system''))
                                    (snd (pods_List w (tick s + k) ''kube-system'')),
                                  Log ''Kubernetes not yet ready: %s\<newline>''
                                    [AErr (snd (pods_List w (tick s + k) ''kube-system''))],
                                  Sleep (time_Second * 10)]) [0..<N]) @
               [PodsList ''kube-system'' (fst (pods_List w (tick s + N) ''kube-system''))
                  (snd (pods_List w (tick s + N) ''kube-system'')),
                Log ''Kubernetes ready'' []]\<rparr>"
    by (intro exI [of _ N]) simp
  have nr: "\<forall>k\<in>set [0..<N]. not_ready (fst (pods_List w (tick s + k) ''kube-system''),
      snd (pods_List w (tick s + k) ''kube-system''))"
    using n(1) by simp
  from e r n(2) show "ready_listing (last (filter is_PodsList (trace s')))"
    by (auto simp: filter_attempts not_ready_def)
  from e r n(2) ready_attempts [OF nr] show
    "length (filter ready_listing (drop (length (trace s)) (trace s'))) = 1"
    by (auto simp: not_ready_def)
  from e r show "filter is_Exit (trace s') = filter is_Exit (trace s)"
    by (auto simp: filter_exits)
next
  assume "\<exists>N. (\<forall>k<N. not_ready (pods_List w (tick s + k) ''kube-system'')) \<and>
           \<not> not_ready (pods_List w (tick s + N) ''kube-system'') \<and>
           s' = s\<lparr>tick := tick s + N + 1,
             trace := trace s @
               concat (map (\<lambda>k. [PodsList ''kube-system''
                                    (fst (pods_List w (tick s + k) ''kube-system''))
                                    (snd (pods_List w (tick s + k) ''kube-system'')),
                                  Log ''Kubernetes not yet ready: %s\<newline>''
                                    [AErr (snd (pods_List w (tick s + k) ''kube-system''))],
                                  Sleep (time_Second * 10)]) [0..<N]) @
               [PodsList ''kube-system'' (fst (pods_List w (tick s + N) ''kube-system''))
                  (snd (pods_List w (tick s + N) ''kube-system'')),
                Log ''Kubernetes ready'' []]\<rparr>"
  then show "waitReady w s = Some s'"
    using waitReady_after by blast
next
  assume "waitReady w s = None"
  show "\<forall>k. not_ready (pods_List w (tick s + k) ''kube-system'')"
  proof (rule ccontr)
    assume "\<not> (\<forall>k. not_ready (pods_List w (tick s + k) ''kube-system''))"
    then obtain k where "\<not> not_ready (pods_List w (tick s + k) ''kube-system'')" by blast
    then obtain N where "\<forall>j<N. not_ready (pods_List w (tick s + j) ''kube-system'')"
      and "\<not> not_ready (pods_List w (tick s + N) ''kube-system'')"
      by (rule first_ready)
    from waitReady_after [OF this] \<open>waitReady w s = None\<close> show False by simp
  qed
next
  assume a: "\<forall>k. not_ready (pods_List w (tick s + k) ''kube-system'')"
  show "waitReady w s = None"
  proof (cases "waitReady w s")
    case (Some s1)
    then show ?thesis using waitReady_Some_ready a by blast
  qed simp
qed

theorem waitReady_returns_iff_ready_witness:
  "waitReady (flaky_world 0) init_state = Some
     (init_state\<lparr>tick := 3, trace :=
        [PodsList ''kube-system'' [] (Some (Error ''connection refused'')),
         Log ''Kubernetes not yet ready: %s\<newline>'' [AErr (Some (Error ''connection refused''))],
         Sleep (time_Second * 10),
         PodsList ''kube-system'' [] None,
         Log ''Kubernetes not yet ready: %s\<newline>'' [AErr None],
         Sleep (time_Second * 10),
         PodsList ''kube-system'' [''etcd''] None,
         Log ''Kubernetes ready'' []]\<rparr>) \<and>
   not_ready (pods_List (flaky_world 0) (tick init_state + 0) ''kube-system'') \<and>
   not_ready (pods_List (flaky_world 0) (tick init_state + 1) ''kube-system'') \<and>
   \<not> not_ready (pods_List (flaky_world 0) (tick init_state + 2) ''kube-system'') \<and>
   waitReady (steady_world\<lparr>pods_List := (\<lambda>t ns. ([], None))\<rparr>) init_state = None"
proof -
  let ?s' = "init_state\<lparr>tick := 3, trace :=
        [PodsList ''kube-system'' [] (Some (Error ''connection refused'')),
         Log ''Kubernetes not yet ready: %s\<newline>'' [AErr (Some (Error ''connection refused''))],
         Sleep (time_Second * 10),
         PodsList ''kube-system'' [] None,
         Log ''Kubernetes not yet ready: %s\<newline>'' [AErr None],
         Sleep (time_Second * 10),
         PodsList ''kube-system'' [''etcd''] None,
         Log ''Kubernetes ready'' []]\<rparr>"
  have a: "\<forall>k<2. not_ready (pods_List (flaky_world 0) (tick init_state + k) ''kube-system'')"
    by (simp add: flaky_world_def init_state_def not_ready_def)
  have b: "\<not> not_ready (pods_List (flaky_world 0) (tick init_state + 2) ''kube-system'')"
    by (simp add: flaky_world_def init_state_def not_ready_def)
  have c: "?s' = init_state\<lparr>tick := tick init_state + 2 + 1,
             trace := trace init_state @
               concat (map (\<lambda>k. [PodsList ''kube-system''
                                    (fst (pods_List (flaky_world 0) (tick init_state + k) ''kube-system''))
                                    (snd (pods_List (flaky_world 0) (tick init_state + k) ''kube-system'')),
                                  Log ''Kubernetes not yet ready: %s\<newline>''
                                    [AErr (snd (pods_List (flaky_world 0) (tick init_state + k) ''kube-system''))],
                                  Sleep (time_Second * 10)]) [0..<2]) @
               [PodsList ''kube-system'' (fst (pods_List (flaky_world 0) (tick init_state + 2) ''kube-system''))
                  (snd (pods_List (flaky_world 0) (tick init_state + 2) ''kube-system'')),
                Log ''Kubernetes ready'' []]\<rparr>"
    by (simp add: flaky_world_def init_state_def numeral_2_eq_2)
  have r: "waitReady (flaky_world 0) init_state = Some ?s'"
    using waitReady_returns_iff_ready [of "flaky_world 0" init_state ?s'] a b c by blast
  have n: "\<forall>k. not_ready (pods_List (steady_world\<lparr>pods_List := (\<lambda>t ns. ([], None))\<rparr>)
      (tick init_state + k) ''kube-system'')"
    by (simp add: not_ready_def)
  have d: "waitReady (steady_world\<lparr>pods_List := (\<lambda>t ns. ([], None))\<rparr>) init_state = None"
    using waitReady_returns_iff_ready
      [of "steady_world\<lparr>pods_List := (\<lambda>t ns. ([], None))\<rparr>" init_state init_state] n by blast
  from r a b d show ?thesis
    by (simp add: numeral_2_eq_2 less_Suc_eq)
qed

section \<open>The command runner: proofs\<close>

lemma foldl_write_chunk_same:
  "cmd_Stdout cmd = r \<Longrightarrow> cmd_Stderr cmd = r \<Longrightarrow>
   foldl (write_chunk cmd) h chunks r = h r @ concat (map snd chunks)"
proof (induction chunks arbitrary: h)
  case Nil
  then show ?case by simp
next
  case (Cons c chunks)
  have "writer_of cmd (fst c) = r"
    using Cons.prems by (cases "fst c") (simp_all add: writer_of_def)
  then show ?case
    using Cons by (simp add: write_chunk_def)
qed

lemma RunCommand_eq:
  "RunCommand w c a s =
     ((process_output (exec_Command w (tick s) c a), process_error (exec_Command w (tick s) c a)),
      called (ExecRun c a (process_output (exec_Command w (tick s) c a))
                (process_error (exec_Command w (tick s) c a))) s)"
  by (cases "exec_Command w (tick s) c a")
     (simp_all add: RunCommand_def cmd_Run_def process_output_def process_error_def
        foldl_write_chunk_same)

lemma ensures_simps [simp]:
  "ensures (Fatal s) F Q = F s"
  "ensures (Ok a s) F Q = Q a s"
  by (simp_all add: ensures_def)

lemma ensures_if:
  "ensures (if c then a else b) F Q = ((c \<longrightarrow> ensures a F Q) \<and> (\<not> c \<longrightarrow> ensures b F Q))"
  by simp

lemma ensures_Let: "ensures (Let x f) F Q = ensures (f x) F Q"
  by simp

lemma ensures_prod: "ensures (case p of (a, b) \<Rightarrow> f a b) F Q = ensures (f (fst p) (snd p)) F Q"
  by (simp add: split_def)

lemma ensures_case:
  "ensures (case r of Fatal s \<Rightarrow> Fatal s | Ok a s \<Rightarrow> f a s) F Q =
   ensures r F (\<lambda>a s. ensures (f a s) F Q)"
  by (cases r) simp_all

lemma ensures_andThen:
  "ensures r F Q \<Longrightarrow> (\<And>a s. Q a s \<Longrightarrow> ensures (f a s) F R) \<Longrightarrow> ensures (andThen r f) F R"
  by (cases r) (simp_all add: andThen_def)

lemma ensures_weaken:
  "ensures r F Q \<Longrightarrow> (\<And>a s. Q a s \<Longrightarrow> Q' a s) \<Longrightarrow> ensures r F Q'"
  by (cases r) simp_all

lemma ensures_Ok: "ensures r F Q \<Longrightarrow> r = Ok a s \<Longrightarrow> Q a s"
  by simp

lemma ensures_Fatal: "ensures r F Q \<Longrightarrow> r = Fatal s \<Longrightarrow> F s"
  by simp

lemma good_append [simp]: "good (xs @ ys) = (good xs \<and> good ys)"
  by (simp add: good_def)

lemma stage_ops_append [simp]: "stage_ops (xs @ ys) = stage_ops xs @ stage_ops ys"
  by (simp add: stage_ops_def)

lemma aborted_append: "good xs \<Longrightarrow> aborted (xs @ ys) = aborted ys"
  by (simp add: aborted_def good_def list_all_iff)

lemmas prims = called_def emit_def log_Println_def log_Printf_def log_Fatalf_def time_Sleep_def

lemmas steps = RunCommand_eq helmClientForNs_def initKubeConf_def InstallSpecWithNSClient_def
  GetDefaultIP_def

lemmas wp = ensures_if ensures_Let ensures_prod ensures_case

lemma cmds_distinct:
  "enableKubeletCmd \<noteq> gatewayCRDsCmd" "clearTaintCmd \<noteq> gatewayCRDsCmd"
  "rookOverridesCmd \<noteq> gatewayCRDsCmd" "defaultPoliciesCmd \<noteq> gatewayCRDsCmd"
  by (simp_all add: enableKubeletCmd_def clearTaintCmd_def rookOverridesCmd_def
        defaultPoliciesCmd_def gatewayCRDsCmd_def)

lemmas obs = good_def aborted_def halts_def stage_ops_def cmds_distinct
  kyvNsSpec_def rookNsSpec_def gitopsNsSpec_def

lemmas specs = ciliumSpec_def kyvernoSpec_def rookOpSpec_def rookClusterSpec_def gitopsSpec_def

text \<open>For running the pipeline on a given world.\<close>

lemmas run_defs = main_def main_boot_def main_addons_def main_untaint_crds_def main_repos_def
  main_cilium_def main_kyverno_def main_rook_def main_gitops_def main_policies_def andThen_def
  steps prims Let_def init_state_def process_output_def process_error_def
  exit_status_def run_trace_def waitReady.simps not_ready_def

section \<open>The blocks of the pipeline\<close>

lemma main_boot_spec:
  "good (trace s) \<Longrightarrow>
   ensures (main_boot w s) (\<lambda>s'. aborted (trace s'))
     (\<lambda>_ s'. good (trace s') \<and> tick s' = tick s + 4 \<and> kubeConfig s' = kubeConfig s \<and>
        stage_ops (trace s') = stage_ops (trace s) @
          [RunCmd ''bash'' [''-c'', enableKubeletCmd],
           RunCmd ''kubeadm'' [''init'', ''--config'', ''/root/clusterconfig.yaml''],
           BuildConfig [] ''/etc/kubernetes/admin.conf'',
           NewClientset])"
  by (simp add: main_boot_def steps wp prims aborted_append split del: if_split;
      (intro conjI impI)?; simp add: obs)

lemma main_untaint_crds_spec:
  "good (trace s) \<Longrightarrow>
   ensures (main_untaint_crds w s) (\<lambda>s'. aborted (trace s'))
     (\<lambda>_ s'. good (trace s') \<and>
        stage_ops (trace s') = stage_ops (trace s) @
          [RunCmd ''bash'' [''-c'', clearTaintCmd], RunCmd ''bash'' [''-c'', gatewayCRDsCmd]])"
  by (simp add: main_untaint_crds_def steps wp prims aborted_append split del: if_split;
      (intro conjI impI)?; simp add: obs)

lemma main_repos_spec:
  "good (trace s) \<Longrightarrow>
   ensures (main_repos w s) (\<lambda>s'. aborted (trace s'))
     (\<lambda>helmClient s'. good (trace s') \<and> opt_Namespace helmClient = ''default'' \<and>
        stage_ops (trace s') = stage_ops (trace s) @
          [NewHelmClient ''default'',
           AddRepo ''default'' ciliumRepo, AddRepo ''default'' kyvernoRepo,
           AddRepo ''default'' rookRepo, AddRepo ''default'' gitopsRepo])"
  by (simp add: main_repos_def steps wp prims aborted_append split del: if_split;
      (intro conjI impI)?; simp add: obs)

lemma main_cilium_spec:
  "good (trace s) \<Longrightarrow>
   ensures (main_cilium emb w helmClient s) (\<lambda>s'. aborted (trace s'))
     (\<lambda>_ s'. good (trace s') \<and>
        stage_ops (trace s') = stage_ops (trace s) @
          [DialOut ''udp'' ''1.1.1.1:80'' (fst (net_Dial w (tick s) ''udp'' ''1.1.1.1:80'')),
           InstallOrUpgrade (opt_Namespace helmClient)
             (ciliumSpec emb (fst (net_Dial w (tick s) ''udp'' ''1.1.1.1:80'')))])"
  by (simp add: main_cilium_def steps wp prims aborted_append split del: if_split;
      (intro conjI impI)?; simp add: obs)

lemma main_kyverno_spec:
  "good (trace s) \<Longrightarrow>
   ensures (main_kyverno w s) (\<lambda>s'. aborted (trace s'))
     (\<lambda>_ s'. good (trace s') \<and>
        stage_ops (trace s') = stage_ops (trace s) @
          [CreateNamespace kyvNsSpec, NewHelmClient ''kyverno'', Install ''kyverno'' kyvernoSpec])"
  by (simp add: main_kyverno_def steps wp prims aborted_append split del: if_split;
      (intro conjI impI)?; simp add: obs)

lemma main_rook_spec:
  "good (trace s) \<Longrightarrow>
   ensures (main_rook emb w s) (\<lambda>s'. aborted (trace s'))
     (\<lambda>_ s'. good (trace s') \<and>
        stage_ops (trace s') = stage_ops (trace s) @
          [CreateNamespace rookNsSpec, RunCmd ''bash'' [''-c'', rookOverridesCmd],
           NewHelmClient ''rook-ceph'',
           InstallOrUpgrade ''rook-ceph'' (rookOpSpec emb),
           InstallOrUpgrade ''rook-ceph'' (rookClusterSpec emb)])"
  by (simp add: main_rook_def steps wp prims aborted_append split del: if_split;
      (intro conjI impI)?; simp add: obs)

lemma main_gitops_spec:
  "good (trace s) \<Longrightarrow>
   ensures (main_gitops emb w s) (\<lambda>s'. aborted (trace s'))
     (\<lambda>_ s'. good (trace s') \<and>
        stage_ops (trace s') = stage_ops (trace s) @
          [CreateNamespace gitopsNsSpec, NewHelmClient ''weave-gitops'',
           Install ''weave-gitops'' (gitopsSpec emb)])"
  by (simp add: main_gitops_def steps wp prims aborted_append split del: if_split;
      (intro conjI impI)?; simp add: obs)

lemma main_policies_spec:
  "good (trace s) \<Longrightarrow>
   ensures (main_policies w s) (\<lambda>s'. aborted (trace s'))
     (\<lambda>_ s'. good (trace s') \<and>
        stage_ops (trace s') = stage_ops (trace s) @
          [RunCmd ''bash'' [''-c'', defaultPoliciesCmd]])"
  by (simp add: main_policies_def steps wp prims aborted_append split del: if_split;
      (intro conjI impI)?; simp add: obs)

section \<open>The pipeline as a whole\<close>

lemma andThen_Ok:
  "(andThen r f = Ok b s'') = (\<exists>a s'. r = Ok a s' \<and> f a s' = Ok b s'')"
  by (cases r) (simp_all add: andThen_def)

lemma good_attempts:
  "good (concat (map (\<lambda>k. [PodsList ns (f k) (g k), Log m (h k), Sleep d]) ks))"
  by (induction ks) (simp_all add: good_def halts_def)

lemma stage_ops_attempts:
  "stage_ops (concat (map (\<lambda>k. [PodsList ns (f k) (g k), Log m (h k), Sleep d]) ks)) =
   replicate (length ks) (ListPods ns)"
  by (induction ks) (simp_all add: stage_ops_def)

lemma waitReady_spec:
  assumes "good (trace s)" and "waitReady w s = Some s'"
  shows "good (trace s') \<and> kubeConfig s' = kubeConfig s \<and>
    (\<exists>n. stage_ops (trace s') = stage_ops (trace s) @ replicate (Suc n) (ListPods ''kube-system''))"
proof -
  from assms(2) obtain k where "\<not> not_ready (pods_List w (tick s + k) ''kube-system'')"
    using waitReady_Some_ready by blast
  then obtain N where "\<forall>j<N. not_ready (pods_List w (tick s + j) ''kube-system'')"
    and "\<not> not_ready (pods_List w (tick s + N) ''kube-system'')"
    by (rule first_ready)
  from waitReady_after [OF this] assms(2)
  have s': "s' = s\<lparr>tick := tick s + N + 1,
     trace := trace s @
       concat (map (\<lambda>k. [PodsList ''kube-system'' (fst (pods_List w (tick s + k) ''kube-system''))
                            (snd (pods_List w (tick s + k) ''kube-system'')),
                          Log ''Kubernetes not yet ready: %s\<newline>''
                            [AErr (snd (pods_List w (tick s + k) ''kube-system''))],
                          Sleep (time_Second * 10)]) [0..<N]) @
       [PodsList ''kube-system'' (fst (pods_List w (tick s + N) ''kube-system''))
          (snd (pods_List w (tick s + N) ''kube-system'')),
        Log ''Kubernetes ready'' []]\<rparr>"
    by simp
  have "stage_ops (trace s') = stage_ops (trace s) @ replicate (Suc N) (ListPods ''kube-system'')"
    unfolding s' by (simp add: stage_ops_attempts) (simp add: stage_ops_def replicate_append_same)
  moreover have "good (trace s')"
    unfolding s' using assms(1) by (simp add: good_attempts) (simp add: good_def halts_def)
  moreover have "kubeConfig s' = kubeConfig s"
    unfolding s' by simp
  ultimately show ?thesis by blast
qed

lemma main_addons_good:
  "good (trace s) \<Longrightarrow>
   ensures (main_addons emb w s) (\<lambda>s'. aborted (trace s')) (\<lambda>_ s'. good (trace s'))"
  unfolding main_addons_def
  by (intro ensures_andThen [where Q = "\<lambda>_ s'. good (trace s')"]
        ensures_weaken [OF main_untaint_crds_spec] ensures_weaken [OF main_repos_spec]
        ensures_weaken [OF main_cilium_spec] ensures_weaken [OF main_kyverno_spec]
        ensures_weaken [OF main_rook_spec] ensures_weaken [OF main_gitops_spec]
        ensures_weaken [OF main_policies_spec]) simp_all

lemma main_addons_ops:
  assumes g: "good (trace s)" and ok: "main_addons emb w s = Ok u s'"
  shows "\<exists>ip. stage_ops (trace s') = stage_ops (trace s) @
          [RunCmd ''bash'' [''-c'', clearTaintCmd], RunCmd ''bash'' [''-c'', gatewayCRDsCmd],
           NewHelmClient ''default'',
           AddRepo ''default'' ciliumRepo, AddRepo ''default'' kyvernoRepo,
           AddRepo ''default'' rookRepo, AddRepo ''default'' gitopsRepo,
           DialOut ''udp'' ''1.1.1.1:80'' ip,
           InstallOrUpgrade ''default'' (ciliumSpec emb ip),
           CreateNamespace kyvNsSpec, NewHelmClient ''kyverno'', Install ''kyverno'' kyvernoSpec,
           CreateNamespace rookNsSpec, RunCmd ''bash'' [''-c'', rookOverridesCmd],
           NewHelmClient ''rook-ceph'',
           InstallOrUpgrade ''rook-ceph'' (rookOpSpec emb),
           InstallOrUpgrade ''rook-ceph'' (rookClusterSpec emb),
           CreateNamespace gitopsNsSpec, NewHelmClient ''weave-gitops'',
           Install ''weave-gitops'' (gitopsSpec emb),
           RunCmd ''bash'' [''-c'', defaultPoliciesCmd]]"
proof -
  from ok obtain u1 s1 c s2 u3 s3 u4 s4 u5 s5 u6 s6 where
    b1: "main_untaint_crds w s = Ok u1 s1" and b2: "main_repos w s1 = Ok c s2" and
    b3: "main_cilium emb w c s2 = Ok u3 s3" and b4: "main_kyverno w s3 = Ok u4 s4" and
    b5: "main_rook emb w s4 = Ok u5 s5" and b6: "main_gitops emb w s5 = Ok u6 s6" and
    b7: "main_policies w s6 = Ok u s'"
    unfolding main_addons_def andThen_Ok by blast
  note p1 = ensures_Ok [OF main_untaint_crds_spec [OF g] b1]
  note p2 = ensures_Ok [OF main_repos_spec b2, OF conjunct1 [OF p1]]
  note p3 = ensures_Ok [OF main_cilium_spec b3, OF conjunct1 [OF p2]]
  note p4 = ensures_Ok [OF main_kyverno_spec b4, OF conjunct1 [OF p3]]
  note p5 = ensures_Ok [OF main_rook_spec b5, OF conjunct1 [OF p4]]
  note p6 = ensures_Ok [OF main_gitops_spec b6, OF conjunct1 [OF p5]]
  note p7 = ensures_Ok [OF main_policies_spec b7, OF conjunct1 [OF p6]]
  from p1 p2 p3 p4 p5 p6 p7 show ?thesis by simp
qed

lemma good_init: "good (trace init_state)"
  by (simp add: init_state_def good_def)

lemma stage_ops_init: "stage_ops (trace init_state) = []"
  by (simp add: init_state_def stage_ops_def)

lemma main_cases:
  assumes "main emb w = Some (code, s)"
  shows "(code = 1 \<and> aborted (trace s)) \<or>
    (code = 0 \<and> good (trace s) \<and>
     (\<exists>n ip. stage_ops (trace s) =
          [RunCmd ''bash'' [''-c'', enableKubeletCmd],
           RunCmd ''kubeadm'' [''init'', ''--config'', ''/root/clusterconfig.yaml''],
           BuildConfig [] ''/etc/kubernetes/admin.conf'',
           NewClientset] @
          replicate (Suc n) (ListPods ''kube-system'') @
          [RunCmd ''bash'' [''-c'', clearTaintCmd], RunCmd ''bash'' [''-c'', gatewayCRDsCmd],
           NewHelmClient ''default'',
           AddRepo ''default'' ciliumRepo, AddRepo ''default'' kyvernoRepo,
           AddRepo ''default'' rookRepo, AddRepo ''default'' gitopsRepo,
           DialOut ''udp'' ''1.1.1.1:80'' ip,
           InstallOrUpgrade ''default'' (ciliumSpec emb ip),
           CreateNamespace kyvNsSpec, NewHelmClient ''kyverno'', Install ''kyverno'' kyvernoSpec,
           CreateNamespace rookNsSpec, RunCmd ''bash'' [''-c'', rookOverridesCmd],
           NewHelmClient ''rook-ceph'',
           InstallOrUpgrade ''rook-ceph'' (rookOpSpec emb),
           InstallOrUpgrade ''rook-ceph'' (rookClusterSpec emb),
           CreateNamespace gitopsNsSpec, NewHelmClient ''weave-gitops'',
           Install ''weave-gitops'' (gitopsSpec emb),
           RunCmd ''bash'' [''-c'', defaultPoliciesCmd]]))"
proof (cases "main_boot w init_state")
  case (Fatal s0)
  with assms have "code = 1" and "s = s0"
    by (simp_all add: main_def)
  moreover have "aborted (trace s0)"
    using ensures_Fatal [OF main_boot_spec [OF good_init] Fatal] .
  ultimately show ?thesis by simp
next
  case (Ok u0 s0)
  note b = ensures_Ok [OF main_boot_spec [OF good_init] Ok]
  from assms Ok obtain s1 where w: "waitReady w s0 = Some s1"
    by (auto simp: main_def split: option.splits)
  from waitReady_spec [OF conjunct1 [OF b] w] obtain n where
    g1: "good (trace s1)" and
    o1: "stage_ops (trace s1) = stage_ops (trace s0) @ replicate (Suc n) (ListPods ''kube-system'')"
    by blast
  show ?thesis
  proof (cases "main_addons emb w s1")
    case (Fatal s2)
    with assms Ok w have "code = 1" and "s = s2"
      by (simp_all add: main_def)
    moreover have "aborted (trace s2)"
      using ensures_Fatal [OF main_addons_good [OF g1] Fatal] .
    ultimately show ?thesis by simp
  next
    case (Ok u2 s2)
    with assms \<open>main_boot w init_state = Ok u0 s0\<close> w have c: "code = 0" and s: "s = s2"
      by (simp_all add: main_def)
    have g2: "good (trace s2)"
      using ensures_Ok [OF main_addons_good [OF g1] Ok] .
    from main_addons_ops [OF g1 Ok] obtain ip where
      o2: "stage_ops (trace s2) = stage_ops (trace s1) @
          [RunCmd ''bash'' [''-c'', clearTaintCmd], RunCmd ''bash'' [''-c'', gatewayCRDsCmd],
           NewHelmClient ''default'',
           AddRepo ''default'' ciliumRepo, AddRepo ''default'' kyvernoRepo,
           AddRepo ''default'' rookRepo, AddRepo ''default'' gitopsRepo,
           DialOut ''udp'' ''1.1.1.1:80'' ip,
           InstallOrUpgrade ''default'' (ciliumSpec emb ip),
           CreateNamespace kyvNsSpec, NewHelmClient ''kyverno'', Install ''kyverno'' kyvernoSpec,
           CreateNamespace rookNsSpec, RunCmd ''bash'' [''-c'', rookOverridesCmd],
           NewHelmClient ''rook-ceph'',
           InstallOrUpgrade ''rook-ceph'' (rookOpSpec emb),
           InstallOrUpgrade ''rook-ceph'' (rookClusterSpec emb),
           CreateNamespace gitopsNsSpec, NewHelmClient ''weave-gitops'',
           Install ''weave-gitops'' (gitopsSpec emb),
           RunCmd ''bash'' [''-c'', defaultPoliciesCmd]]"
      by blast
    have "stage_ops (trace s0) =
          [RunCmd ''bash'' [''-c'', enableKubeletCmd],
           RunCmd ''kubeadm'' [''init'', ''--config'', ''/root/clusterconfig.yaml''],
           BuildConfig [] ''/etc/kubernetes/admin.conf'',
           NewClientset]"
      using b by (simp add: stage_ops_init)
    with o1 o2 c s g2 show ?thesis
      by (intro disjI2 conjI exI [of _ n] exI [of _ ip]) (simp_all del: replicate.simps)
  qed
qed

text \<open>In an aborted trace, the failed operation is where the trace stops being good.\<close>

lemma aborted_decomp:
  assumes a: "aborted tr" and d: "tr = pre @ e # post" and e: "err_of e \<noteq> None" "\<not> is_PodsList e"
  shows "dropWhile (\<lambda>e. \<not> halts e) tr = e # post"
proof -
  from a obtain h rest where dw: "dropWhile (\<lambda>e. \<not> halts e) tr = h # rest"
    and rest: "rest \<noteq> []" "last rest = Exit 1" "list_all is_Log (butlast rest)"
    by (auto simp: aborted_def split: list.splits)
  have quiet: "err_of x = None" if "x \<in> set rest" for x
  proof -
    from rest(1) have "rest = butlast rest @ [last rest]" by simp
    with that have "x \<in> set (butlast rest) \<or> x = last rest"
      by (metis Un_iff empty_iff empty_set set_ConsD set_append)
    then show ?thesis
      using rest(2,3) by (cases x) (auto simp: list_all_iff)
  qed
  have he: "halts e"
    using e by (simp add: halts_def)
  show ?thesis
  proof (cases "\<forall>x\<in>set pre. \<not> halts x")
    case True
    then show ?thesis
      unfolding d using he by (simp add: dropWhile_append3)
  next
    case False
    then obtain p1 x p2 where p: "pre = p1 @ x # p2" "halts x" "\<forall>y\<in>set p1. \<not> halts y"
      by (metis split_list_first_prop)
    then have "dropWhile (\<lambda>e. \<not> halts e) tr = x # p2 @ e # post"
      unfolding d by (simp add: dropWhile_append3)
    with dw have "e \<in> set rest" by auto
    then have "err_of e = None" by (rule quiet)
    with e(1) show ?thesis by simp
  qed
qed

lemma logs_no_ops: "list_all is_Log tr \<Longrightarrow> stage_ops tr = []"
proof (induction tr)
  case Nil
  then show ?case by (simp add: stage_ops_def)
next
  case (Cons e tr)
  then show ?case by (cases e) (simp_all add: stage_ops_def)
qed

lemma logs_then_exit_no_ops:
  assumes "post \<noteq> []" and "last post = Exit c" and "list_all is_Log (butlast post)"
  shows "stage_ops post = []"
proof -
  have "post = butlast post @ [Exit c]"
    using assms(1,2) by (metis append_butlast_last_id)
  then have "stage_ops post = stage_ops (butlast post) @ stage_ops [Exit c]"
    by (metis stage_ops_append)
  with logs_no_ops [OF assms(3)] show ?thesis
    by (simp add: stage_ops_def)
qed

text \<open>A run that does not return is stuck in the readiness loop: the first block went
  through, and the listing, first called at tick 4, is never ready.\<close>

lemma main_returns_iff:
  "(\<exists>r. main emb w = Some r) \<longleftrightarrow>
   (\<exists>s. main_boot w init_state = Fatal s) \<or>
   (\<exists>k. \<not> not_ready (pods_List w (4 + k) ''kube-system''))"
proof (cases "main_boot w init_state")
  case (Fatal s0)
  then show ?thesis by (simp add: main_def)
next
  case (Ok u0 s0)
  from ensures_Ok [OF main_boot_spec [OF good_init] Ok] have t: "tick s0 = 4"
    by (simp add: init_state_def)
  have "(\<exists>r. main emb w = Some r) \<longleftrightarrow> (\<exists>s1. waitReady w s0 = Some s1)"
    using Ok by (auto simp: main_def split: option.splits outcome.splits)
  also have "\<dots> \<longleftrightarrow> (\<exists>k. \<not> not_ready (pods_List w (tick s0 + k) ''kube-system''))"
  proof
    assume "\<exists>s1. waitReady w s0 = Some s1"
    then show "\<exists>k. \<not> not_ready (pods_List w (tick s0 + k) ''kube-system'')"
      using waitReady_Some_ready by blast
  next
    assume "\<exists>k. \<not> not_ready (pods_List w (tick s0 + k) ''kube-system'')"
    then obtain k where "\<not> not_ready (pods_List w (tick s0 + k) ''kube-system'')" ..
    then obtain N where "\<forall>j<N. not_ready (pods_List w (tick s0 + j) ''kube-system'')"
      and "\<not> not_ready (pods_List w (tick s0 + N) ''kube-system'')"
      by (rule first_ready)
    then show "\<exists>s1. waitReady w s0 = Some s1"
      using waitReady_after by blast
  qed
  finally show ?thesis
    using Ok t by simp
qed

lemma good_no_error:
  "good tr \<Longrightarrow> e \<in> set tr \<Longrightarrow> err_of e \<noteq> None \<Longrightarrow> is_PodsList e"
  by (auto simp: good_def halts_def list_all_iff)


text \<open>
  Claim C8. Whatever error a namespace creation returns, a name conflict included, the
  run ends there: the trace ends with the creation, the one log line
  "Failed to create ... namespace" carrying that error, and the exit with status 1.
\<close>

theorem namespace_create_error_fatal:
  assumes "main emb w = Some (code, s)" and "NamespacesCreate ns (Some err) \<in> set (trace s)"
  shows "code = 1 \<and>
    (\<exists>pre. trace s = pre @
       [NamespacesCreate ns (Some err),
        Log (''Failed to create '' @ meta_Name ns @ '' namespace: %s\<newline>'') [AErr (Some err)],
        Exit 1])"
proof -
  from assms(2) obtain pre post where d: "trace s = pre @ NamespacesCreate ns (Some err) # post"
    by (meson split_list)
  have "\<not> good (trace s)"
    using good_no_error [OF _ assms(2)] by auto
  with main_cases [OF assms(1)] have c: "code = 1" and a: "aborted (trace s)"
    by auto
  from aborted_decomp [OF a d] a have
    "post = [Log (''Failed to create '' @ meta_Name ns @ '' namespace: %s\<newline>'') [AErr (Some err)], Exit 1]"
    by (simp add: aborted_def)
  with c d show ?thesis by blast
qed



theorem namespace_create_error_fatal_witness:
  "\<exists>s. main sample_embedded kyverno_exists_world = Some (1, s) \<and>
     NamespacesCreate kyvNsSpec (Some (Error ''namespaces kyverno already exists'')) \<in> set (trace s) \<and>
     (\<exists>pre. trace s = pre @
       [NamespacesCreate kyvNsSpec (Some (Error ''namespaces kyverno already exists'')),
        Log (''Failed to create '' @ meta_Name kyvNsSpec @ '' namespace: %s\<newline>'')
          [AErr (Some (Error ''namespaces kyverno already exists''))],
        Exit 1])"
proof -
  have "\<exists>s. main sample_embedded kyverno_exists_world = Some (1, s) \<and>
     NamespacesCreate kyvNsSpec (Some (Error ''namespaces kyverno already exists'')) \<in> set (trace s)"
    by (simp add: run_defs kyverno_exists_world_def steady_world_def kyvNsSpec_def)
  then obtain s where s: "main sample_embedded kyverno_exists_world = Some (1, s)"
    and m: "NamespacesCreate kyvNsSpec (Some (Error ''namespaces kyverno already exists'')) \<in> set (trace s)"
    by blast
  from namespace_create_error_fatal [OF s m] s m show ?thesis
    by blast
qed

section \<open>The cached credentials: proofs\<close>

lemma file_reads_append [simp]: "file_reads (xs @ ys) = file_reads xs @ file_reads ys"
  by (simp add: file_reads_def)

lemma client_configs_append [simp]:
  "client_configs (xs @ ys) = client_configs xs @ client_configs ys"
  by (simp add: client_configs_def)

lemma file_reads_attempts:
  "file_reads (concat (map (\<lambda>k. [PodsList ns (f k) (g k), Log m (h k), Sleep d]) ks)) = []"
  by (induction ks) (simp_all add: file_reads_def)

lemma client_configs_attempts:
  "client_configs (concat (map (\<lambda>k. [PodsList ns (f k) (g k), Log m (h k), Sleep d]) ks)) = []"
  by (induction ks) (simp_all add: client_configs_def)

lemma installed_without_credentials_append [simp]:
  "installed_without_credentials (xs @ ys) =
   (installed_without_credentials xs \<or> installed_without_credentials ys)"
  by (simp add: installed_without_credentials_def)

lemma file_reads_Cons:
  "file_reads [] = []"
  "file_reads (e # es) = (if is_ReadFile e then e # file_reads es else file_reads es)"
  by (simp_all add: file_reads_def)

lemma client_configs_Cons:
  "client_configs [] = []"
  "client_configs (e # es) = config_of e @ client_configs es"
  by (simp_all add: client_configs_def)

lemma installed_without_credentials_Cons:
  "installed_without_credentials [] = False"
  "installed_without_credentials (e # es) =
   (without_credentials e \<or> installed_without_credentials es)"
  by (simp_all add: installed_without_credentials_def)

lemmas creds = fresh_def holds_blob_def read_once_def file_reads_Cons client_configs_Cons
  installed_without_credentials_Cons

lemma main_boot_fresh:
  "fresh s \<Longrightarrow> ensures (main_boot w s) lawful (\<lambda>_ s'. fresh s')"
  unfolding lawful_def
  by (simp add: main_boot_def steps wp prims split del: if_split;
      (intro conjI impI)?; simp add: creds)

lemma main_untaint_crds_fresh:
  "fresh s \<Longrightarrow> ensures (main_untaint_crds w s) lawful (\<lambda>_ s'. fresh s')"
  unfolding lawful_def
  by (simp add: main_untaint_crds_def steps wp prims split del: if_split;
      (intro conjI impI)?; simp add: creds)

lemma main_repos_creds:
  "fresh s \<Longrightarrow>
   ensures (main_repos w s) lawful (\<lambda>c s'. holds_blob s' \<and> KubeConfig c = kubeConfig s')"
  unfolding lawful_def
  by (simp add: main_repos_def steps wp prims split del: if_split;
      (intro conjI impI)?; simp add: creds)

lemma main_cilium_creds:
  "holds_blob s \<and> KubeConfig c = kubeConfig s \<Longrightarrow>
   ensures (main_cilium emb w c s) lawful (\<lambda>_ s'. served s')"
  unfolding lawful_def served_def
  by (simp add: main_cilium_def steps wp prims split del: if_split;
      (intro conjI impI)?; simp add: creds list_all_iff; blast?)

lemma main_kyverno_creds:
  "served s \<Longrightarrow> ensures (main_kyverno w s) lawful (\<lambda>_ s'. served s')"
  unfolding served_def lawful_def
  by (erule disjE; simp add: main_kyverno_def steps wp prims split del: if_split;
      (intro conjI impI)?; simp add: creds specs list_all_iff)

lemma main_rook_creds:
  "served s \<Longrightarrow> ensures (main_rook emb w s) lawful (\<lambda>_ s'. served s')"
  unfolding served_def lawful_def
  by (erule disjE; simp add: main_rook_def steps wp prims split del: if_split;
      (intro conjI impI)?; simp add: creds specs list_all_iff)

lemma main_gitops_creds:
  "served s \<Longrightarrow> ensures (main_gitops emb w s) lawful (\<lambda>_ s'. served s')"
  unfolding served_def lawful_def
  by (erule disjE; simp add: main_gitops_def steps wp prims split del: if_split;
      (intro conjI impI)?; simp add: creds specs list_all_iff)

lemma main_policies_creds:
  "served s \<Longrightarrow> ensures (main_policies w s) lawful (\<lambda>_ s'. served s')"
  unfolding served_def lawful_def
  by (erule disjE; simp add: main_policies_def steps wp prims split del: if_split;
      (intro conjI impI)?; simp add: creds specs list_all_iff)

lemma waitReady_fresh:
  assumes "fresh s" and "waitReady w s = Some s'"
  shows "fresh s'"
proof -
  from assms(2) obtain k where "\<not> not_ready (pods_List w (tick s + k) ''kube-system'')"
    using waitReady_Some_ready by blast
  then obtain N where "\<forall>j<N. not_ready (pods_List w (tick s + j) ''kube-system'')"
    and "\<not> not_ready (pods_List w (tick s + N) ''kube-system'')"
    by (rule first_ready)
  from waitReady_after [OF this] assms(2)
  have s': "s' = s\<lparr>tick := tick s + N + 1,
     trace := trace s @
       concat (map (\<lambda>k. [PodsList ''kube-system'' (fst (pods_List w (tick s + k) ''kube-system''))
                            (snd (pods_List w (tick s + k) ''kube-system'')),
                          Log ''Kubernetes not yet ready: %s\<newline>''
                            [AErr (snd (pods_List w (tick s + k) ''kube-system''))],
                          Sleep (time_Second * 10)]) [0..<N]) @
       [PodsList ''kube-system'' (fst (pods_List w (tick s + N) ''kube-system''))
          (snd (pods_List w (tick s + N) ''kube-system'')),
        Log ''Kubernetes ready'' []]\<rparr>"
    by simp
  have "file_reads (trace s') = file_reads (trace s)"
    unfolding s' by (simp add: file_reads_attempts) (simp add: file_reads_def)
  moreover have "client_configs (trace s') = client_configs (trace s)"
    unfolding s' by (simp add: client_configs_attempts) (simp add: client_configs_def)
  moreover have "kubeConfig s' = kubeConfig s"
    unfolding s' by simp
  ultimately show ?thesis
    using assms(1) by (simp add: fresh_def)
qed

lemma main_addons_creds:
  "fresh s \<Longrightarrow> ensures (main_addons emb w s) lawful (\<lambda>_ s'. served s')"
  unfolding main_addons_def
  apply (rule ensures_andThen [where Q = "\<lambda>_ s'. fresh s'"])
   apply (erule main_untaint_crds_fresh)
  apply (rule ensures_andThen [where Q = "\<lambda>c s'. holds_blob s' \<and> KubeConfig c = kubeConfig s'"])
   apply (erule main_repos_creds)
  apply (rule ensures_andThen [where Q = "\<lambda>_ s'. served s'"])
   apply (erule main_cilium_creds)
  apply (intro ensures_andThen [where Q = "\<lambda>_ s'. served s'"]
        main_kyverno_creds main_rook_creds main_gitops_creds main_policies_creds)
        apply assumption+
  done

lemma fresh_init: "fresh init_state"
  by (simp add: fresh_def init_state_def file_reads_def client_configs_def)

lemma fresh_lawful: "fresh s \<Longrightarrow> read_once (trace s)"
  by (simp add: fresh_def read_once_def)

lemma holds_blob_read_once: "holds_blob s \<Longrightarrow> read_once (trace s)"
  by (auto simp: holds_blob_def read_once_def list_all_iff)



section \<open>The command runner, as a contract\<close>

text \<open>
  Claim C9. \<^verbatim>\<open>RunCommand\<close> runs the process to its end and returns, in one string, all
  that the process wrote to its standard output and its standard error, in the order
  written, together with the error of the run; the error is not nil exactly when the
  process could not be started or exited with a status other than 0, and the string is
  returned in either case. The call leaves one event in the trace.
\<close>

theorem RunCommand_captures_and_reports:
  "fst (RunCommand w command args s) =
     (process_output (exec_Command w (tick s) command args),
      process_error (exec_Command w (tick s) command args)) \<and>
   process_output (exec_Command w (tick s) command args) =
     (case exec_Command w (tick s) command args of
        LaunchFailure e \<Rightarrow> []
      | Exited chunks status \<Rightarrow> concat (map snd chunks)) \<and>
   (snd (fst (RunCommand w command args s)) \<noteq> None) =
     (case exec_Command w (tick s) command args of
        LaunchFailure e \<Rightarrow> True
      | Exited chunks status \<Rightarrow> status \<noteq> 0) \<and>
   trace (snd (RunCommand w command args s)) =
     trace s @ [ExecRun command args (fst (fst (RunCommand w command args s)))
                  (snd (fst (RunCommand w command args s)))]"
  by (simp add: RunCommand_eq called_def process_output_def process_error_def
      split: process.splits)

section \<open>The order of a successful run\<close>

text \<open>
  Claim C2. In a run that exits with status 0 the operations are, in this order: the
  runtime and kubelet, the control-plane init, the two API client constructions, one or
  more pod listings, the taint removal, the Gateway CRDs, the Helm client and the four
  repository registrations, the host address, the Cilium install, the Kyverno namespace
  and install, the rook-ceph namespace, overrides, operator and cluster installs, the
  weave-gitops namespace and install, the default policies. Among the chart operations
  the four registrations come first, then the five installs.
\<close>

theorem main_success_order:
  assumes "main emb w = Some (0, s)"
  shows "\<exists>n ip. stage_ops (trace s) =
          [RunCmd ''bash'' [''-c'', enableKubeletCmd],
           RunCmd ''kubeadm'' [''init'', ''--config'', ''/root/clusterconfig.yaml''],
           BuildConfig [] ''/etc/kubernetes/admin.conf'',
           NewClientset] @
          replicate (Suc n) (ListPods ''kube-system'') @
          [RunCmd ''bash'' [''-c'', clearTaintCmd], RunCmd ''bash'' [''-c'', gatewayCRDsCmd],
           NewHelmClient ''default'',
           AddRepo ''default'' ciliumRepo, AddRepo ''default'' kyvernoRepo,
           AddRepo ''default'' rookRepo, AddRepo ''default'' gitopsRepo,
           DialOut ''udp'' ''1.1.1.1:80'' ip,
           InstallOrUpgrade ''default'' (ciliumSpec emb ip),
           CreateNamespace kyvNsSpec, NewHelmClient ''kyverno'', Install ''kyverno'' kyvernoSpec,
           CreateNamespace rookNsSpec, RunCmd ''bash'' [''-c'', rookOverridesCmd],
           NewHelmClient ''rook-ceph'',
           InstallOrUpgrade ''rook-ceph'' (rookOpSpec emb),
           InstallOrUpgrade ''rook-ceph'' (rookClusterSpec emb),
           CreateNamespace gitopsNsSpec, NewHelmClient ''weave-gitops'',
           Install ''weave-gitops'' (gitopsSpec emb),
           RunCmd ''bash'' [''-c'', defaultPoliciesCmd]] \<and>
        filter is_chart_op (stage_ops (trace s)) =
          [AddRepo ''default'' ciliumRepo, AddRepo ''default'' kyvernoRepo,
           AddRepo ''default'' rookRepo, AddRepo ''default'' gitopsRepo,
           InstallOrUpgrade ''default'' (ciliumSpec emb ip),
           Install ''kyverno'' kyvernoSpec,
           InstallOrUpgrade ''rook-ceph'' (rookOpSpec emb),
           InstallOrUpgrade ''rook-ceph'' (rookClusterSpec emb),
           Install ''weave-gitops'' (gitopsSpec emb)]"
proof -
  from main_cases [OF assms] obtain n ip where o: "stage_ops (trace s) =
          [RunCmd ''bash'' [''-c'', enableKubeletCmd],
           RunCmd ''kubeadm'' [''init'', ''--config'', ''/root/clusterconfig.yaml''],
           BuildConfig [] ''/etc/kubernetes/admin.conf'',
           NewClientset] @
          replicate (Suc n) (ListPods ''kube-system'') @
          [RunCmd ''bash'' [''-c'', clearTaintCmd], RunCmd ''bash'' [''-c'', gatewayCRDsCmd],
           NewHelmClient ''default'',
           AddRepo ''default'' ciliumRepo, AddRepo ''default'' kyvernoRepo,
           AddRepo ''default'' rookRepo, AddRepo ''default'' gitopsRepo,
           DialOut ''udp'' ''1.1.1.1:80'' ip,
           InstallOrUpgrade ''default'' (ciliumSpec emb ip),
           CreateNamespace kyvNsSpec, NewHelmClient ''kyverno'', Install ''kyverno'' kyvernoSpec,
           CreateNamespace rookNsSpec, RunCmd ''bash'' [''-c'', rookOverridesCmd],
           NewHelmClient ''rook-ceph'',
           InstallOrUpgrade ''rook-ceph'' (rookOpSpec emb),
           InstallOrUpgrade ''rook-ceph'' (rookClusterSpec emb),
           CreateNamespace gitopsNsSpec, NewHelmClient ''weave-gitops'',
           Install ''weave-gitops'' (gitopsSpec emb),
           RunCmd ''bash'' [''-c'', defaultPoliciesCmd]]"
    by auto
  show ?thesis
    by (rule exI [of _ n], rule exI [of _ ip], rule conjI, rule o, simp add: o)
qed

theorem main_success_order_witness:
  "\<exists>s. main sample_embedded steady_world = Some (0, s) \<and>
     filter is_chart_op (stage_ops (trace s)) =
          [AddRepo ''default'' ciliumRepo, AddRepo ''default'' kyvernoRepo,
           AddRepo ''default'' rookRepo, AddRepo ''default'' gitopsRepo,
           InstallOrUpgrade ''default'' (ciliumSpec sample_embedded ''10.0.0.5''),
           Install ''kyverno'' kyvernoSpec,
           InstallOrUpgrade ''rook-ceph'' (rookOpSpec sample_embedded),
           InstallOrUpgrade ''rook-ceph'' (rookClusterSpec sample_embedded),
           Install ''weave-gitops'' (gitopsSpec sample_embedded)]"
proof -
  have "\<exists>s. main sample_embedded steady_world = Some (0, s) \<and>
     DialOut ''udp'' ''1.1.1.1:80'' ''10.0.0.5'' \<in> set (stage_ops (trace s))"
    by (simp add: run_defs steady_world_def stage_ops_def)
  then obtain s where s: "main sample_embedded steady_world = Some (0, s)"
    and d: "DialOut ''udp'' ''1.1.1.1:80'' ''10.0.0.5'' \<in> set (stage_ops (trace s))"
    by blast
  from main_success_order [OF s] d s show ?thesis
    by auto
qed

text \<open>
  Claim C5. The claim says that every chart install goes through the install-or-upgrade
  operation. In the run in which every collaborator succeeds, the Cilium and the two
  rook-ceph charts do; the Kyverno and weave-gitops charts go through
  \<^verbatim>\<open>InstallSpecWithNSClient\<close>, which calls the plain install operation.
\<close>

theorem policy_and_gitops_charts_use_plain_install:
  "exit_status sample_embedded steady_world = Some 0 \<and>
   filter is_install_op (stage_ops (run_trace sample_embedded steady_world)) =
     [InstallOrUpgrade ''default'' (ciliumSpec sample_embedded ''10.0.0.5''),
      Install ''kyverno'' kyvernoSpec,
      InstallOrUpgrade ''rook-ceph'' (rookOpSpec sample_embedded),
      InstallOrUpgrade ''rook-ceph'' (rookClusterSpec sample_embedded),
      Install ''weave-gitops'' (gitopsSpec sample_embedded)]"
  by (simp add: run_defs steady_world_def stage_ops_def)

section \<open>The host address in the Cilium values\<close>

lemma split_at_boundary:
  assumes "sublist xs (ys @ zs)"
  shows "sublist xs ys \<or> sublist xs zs \<or>
    (\<exists>xs1 xs2. xs = xs1 @ xs2 \<and> xs1 \<noteq> [] \<and> xs2 \<noteq> [] \<and> suffix xs1 ys \<and> prefix xs2 zs)"
proof -
  from assms consider "sublist xs ys" | "sublist xs zs"
    | xs1 xs2 where "xs = xs1 @ xs2" "suffix xs1 ys" "prefix xs2 zs"
    by (auto simp: sublist_append)
  then show ?thesis
  proof cases
    case 3
    show ?thesis
    proof (cases "xs1 = [] \<or> xs2 = []")
      case True
      with 3 have "sublist xs ys \<or> sublist xs zs"
        by auto
      then show ?thesis by blast
    next
      case False
      with 3 show ?thesis by blast
    qed
  qed auto
qed

lemma no_placeholder_left:
  assumes a: "\<not> sublist ''K8SHOST'' (pre @ ''K8SHOS'')"
    and b: "\<not> sublist ''K8SHOST'' (''8SHOST'' @ post)"
    and k: "CHR ''K'' \<notin> set ip" and t: "CHR ''T'' \<notin> set ip"
    and o: "\<not> set ip \<subseteq> set ''8SHOS''"
  shows "\<not> sublist ''K8SHOST'' (pre @ ip @ post)"
proof
  assume s: "sublist ''K8SHOST'' (pre @ ip @ post)"
  have npre: "\<not> sublist ''K8SHOST'' pre"
    using a by (meson sublist_appendI sublist_order.order.trans sublist_append_rightI)
  have npost: "\<not> sublist ''K8SHOST'' post"
    using b by (meson sublist_order.order.trans sublist_append_leftI)
  have nip: "\<not> sublist ''K8SHOST'' ip"
    using k by (meson list.set_intros(1) set_mono_sublist subsetD)
  from split_at_boundary [OF s] npre
  consider "sublist ''K8SHOST'' (ip @ post)"
    | x1 x2 where "''K8SHOST'' = x1 @ x2" "x1 \<noteq> []" "x2 \<noteq> []" "suffix x1 pre" "prefix x2 (ip @ post)"
    by blast
  then show False
  proof cases
    case 1
    from split_at_boundary [OF 1] nip npost obtain x1 x2 where
      x: "''K8SHOST'' = x1 @ x2" "x1 \<noteq> []" "suffix x1 ip"
      by blast
    then have "hd x1 = CHR ''K''"
      by (cases x1) auto
    with x(2,3) have "CHR ''K'' \<in> set ip"
      by (metis hd_in_set set_mono_suffix subsetD)
    with k show False by simp
  next
    case 2
    from 2(5) have "prefix x2 ip \<or> (\<exists>x3. x2 = ip @ x3 \<and> prefix x3 post)"
      by (simp add: prefix_append)
    then show False
    proof
      assume p: "prefix x2 ip"
      from 2(1,3) have "last x2 = CHR ''T''"
        by (metis last_appendR last.simps list.discI)
      with 2(3) p have "CHR ''T'' \<in> set ip"
        by (metis last_in_set set_mono_prefix subsetD)
      with t show False by simp
    next
      assume "\<exists>x3. x2 = ip @ x3 \<and> prefix x3 post"
      then obtain x3 where x3: "x2 = ip @ x3" by blast
      have "x3 \<noteq> []"
      proof
        assume "x3 = []"
        with x3 2(3) have ne: "ip \<noteq> []" by simp
        from \<open>x3 = []\<close> x3 2(1) have "last ''K8SHOST'' = last (x1 @ ip)" by simp
        with ne have "last ip = CHR ''T''" by simp
        with ne t show False by (metis last_in_set)
      qed
      from 2(1) x3 have "butlast ''K8SHOST'' = butlast (x1 @ ip @ x3)"
        by simp
      with \<open>x3 \<noteq> []\<close> have "''K8SHOS'' = x1 @ ip @ butlast x3"
        by (simp add: butlast_append)
      then have "tl ''K8SHOS'' = tl (x1 @ ip @ butlast x3)"
        by simp
      with 2(2) have "''8SHOS'' = tl x1 @ ip @ butlast x3"
        by simp
      then have "set ''8SHOS'' = set (tl x1 @ ip @ butlast x3)"
        by (rule arg_cong)
      then have "set ip \<subseteq> set ''8SHOS''"
        by auto
      with o show False by simp
    qed
  qed
qed

lemma prefix_into_placeholder:
  assumes "pre \<noteq> []" and "old \<noteq> []" and "prefix old (pre @ old @ post)"
  shows "prefix old (pre @ butlast old)"
proof -
  have l: "length old \<le> length (pre @ butlast old)"
    using assms(1,2) by (cases pre) simp_all
  have "pre @ old @ post = (pre @ butlast old) @ (last old # post)"
    using assms(2) by simp
  with assms(3) have "prefix old ((pre @ butlast old) @ (last old # post))"
    by simp
  with l show ?thesis
    by (metis prefix_length_prefix prefixI)
qed

lemma strings_Replace_first:
  assumes "old \<noteq> []" and "\<not> sublist old (pre @ butlast old)"
  shows "strings_Replace (pre @ old @ post) old new 1 = pre @ new @ post"
  using assms(2)
proof (induction pre)
  case Nil
  have "strings_Replace (old @ post) old new 1 = new @ strings_Replace post old new 0"
    using assms(1) by (subst strings_Replace.simps) simp
  also have "strings_Replace post old new 0 = post"
    by (subst strings_Replace.simps) simp
  finally show ?case by simp
next
  case (Cons c pre)
  have np: "\<not> prefix old ((c # pre) @ old @ post)"
    using prefix_into_placeholder [of "c # pre" old post] assms(1) Cons.prems
    by (meson list.discI prefix_imp_sublist)
  have ns: "\<not> sublist old (pre @ butlast old)"
    using Cons.prems by (simp add: sublist_Cons_right)
  have "strings_Replace ((c # pre) @ old @ post) old new 1 =
        c # strings_Replace (pre @ old @ post) old new 1"
    using np assms(1) by (subst strings_Replace.simps) simp
  with Cons.IH [OF ns] show ?case by simp
qed

text \<open>What \<^verbatim>\<open>ciliumSpec\<close> makes of a template that holds the placeholder at one place
  only, between \<open>pre\<close> and \<open>post\<close>.\<close>

lemma ciliumSpec_values:
  assumes "CiliumYaml emb = pre @ ''K8SHOST'' @ post"
    and "\<not> sublist ''K8SHOST'' (pre @ ''K8SHOS'')"
    and "\<not> sublist ''K8SHOST'' (''8SHOST'' @ post)"
    and "CHR ''K'' \<notin> set ip" and "CHR ''T'' \<notin> set ip"
    and "\<not> set ip \<subseteq> set ''8SHOS''"
  shows "ValuesYaml (ciliumSpec emb ip) = pre @ ip @ post \<and>
    \<not> sublist ''K8SHOST'' (ValuesYaml (ciliumSpec emb ip))"
proof -
  have "strings_Replace (pre @ ''K8SHOST'' @ post) ''K8SHOST'' ip 1 = pre @ ip @ post"
    using assms(2) by (intro strings_Replace_first) simp_all
  then have v: "ValuesYaml (ciliumSpec emb ip) = pre @ ip @ post"
    by (simp add: ciliumSpec_def assms(1))
  with no_placeholder_left [OF assms(2-6)] show ?thesis
    by simp
qed

section \<open>The discovered address in the payload of the run\<close>

lemma dial_and_cilium_append [simp]:
  "dial_and_cilium (xs @ ys) = dial_and_cilium xs @ dial_and_cilium ys"
  by (simp add: dial_and_cilium_def)

lemma ReleaseName_ciliumSpec [simp]: "ReleaseName (ciliumSpec emb ip) = ''cilium''"
  by (simp add: ciliumSpec_def)

lemma main_boot_dc:
  "P (dial_and_cilium (trace s)) \<Longrightarrow>
   ensures (main_boot w s) (\<lambda>s'. P (dial_and_cilium (trace s')))
     (\<lambda>_ s'. P (dial_and_cilium (trace s')))"
  by (simp add: main_boot_def steps wp prims split del: if_split;
      (intro conjI impI)?; simp add: dial_and_cilium_def dial_or_cilium_def specs)

lemma main_untaint_crds_dc:
  "P (dial_and_cilium (trace s)) \<Longrightarrow>
   ensures (main_untaint_crds w s) (\<lambda>s'. P (dial_and_cilium (trace s')))
     (\<lambda>_ s'. P (dial_and_cilium (trace s')))"
  by (simp add: main_untaint_crds_def steps wp prims split del: if_split;
      (intro conjI impI)?; simp add: dial_and_cilium_def dial_or_cilium_def specs)

lemma main_repos_dc:
  "P (dial_and_cilium (trace s)) \<Longrightarrow>
   ensures (main_repos w s) (\<lambda>s'. P (dial_and_cilium (trace s')))
     (\<lambda>_ s'. P (dial_and_cilium (trace s')))"
  by (simp add: main_repos_def steps wp prims split del: if_split;
      (intro conjI impI)?; simp add: dial_and_cilium_def dial_or_cilium_def specs)

lemma main_kyverno_dc:
  "P (dial_and_cilium (trace s)) \<Longrightarrow>
   ensures (main_kyverno w s) (\<lambda>s'. P (dial_and_cilium (trace s')))
     (\<lambda>_ s'. P (dial_and_cilium (trace s')))"
  by (simp add: main_kyverno_def steps wp prims split del: if_split;
      (intro conjI impI)?; simp add: dial_and_cilium_def dial_or_cilium_def specs)

lemma main_rook_dc:
  "P (dial_and_cilium (trace s)) \<Longrightarrow>
   ensures (main_rook emb w s) (\<lambda>s'. P (dial_and_cilium (trace s')))
     (\<lambda>_ s'. P (dial_and_cilium (trace s')))"
  by (simp add: main_rook_def steps wp prims split del: if_split;
      (intro conjI impI)?; simp add: dial_and_cilium_def dial_or_cilium_def specs)

lemma main_gitops_dc:
  "P (dial_and_cilium (trace s)) \<Longrightarrow>
   ensures (main_gitops emb w s) (\<lambda>s'. P (dial_and_cilium (trace s')))
     (\<lambda>_ s'. P (dial_and_cilium (trace s')))"
  by (simp add: main_gitops_def steps wp prims split del: if_split;
      (intro conjI impI)?; simp add: dial_and_cilium_def dial_or_cilium_def specs)

lemma main_policies_dc:
  "P (dial_and_cilium (trace s)) \<Longrightarrow>
   ensures (main_policies w s) (\<lambda>s'. P (dial_and_cilium (trace s')))
     (\<lambda>_ s'. P (dial_and_cilium (trace s')))"
  by (simp add: main_policies_def steps wp prims split del: if_split;
      (intro conjI impI)?; simp add: dial_and_cilium_def dial_or_cilium_def specs)

lemma main_cilium_dc:
  "dial_and_cilium (trace s) = [] \<Longrightarrow>
   ensures (main_cilium emb w c s) (\<lambda>s'. dial_then_cilium emb (dial_and_cilium (trace s')))
     (\<lambda>_ s'. dial_then_cilium emb (dial_and_cilium (trace s')))"
  by (simp add: main_cilium_def steps wp prims split del: if_split;
      (intro conjI impI)?; simp add: dial_and_cilium_def dial_or_cilium_def dial_then_cilium_def)

lemma dial_and_cilium_attempts:
  "dial_and_cilium (concat (map (\<lambda>k. [PodsList ns (f k) (g k), Log m (h k), Sleep d]) ks)) = []"
  by (induction ks) (simp_all add: dial_and_cilium_def dial_or_cilium_def)

lemma waitReady_dc:
  assumes "waitReady w s = Some s'"
  shows "dial_and_cilium (trace s') = dial_and_cilium (trace s)"
proof -
  from assms obtain k where "\<not> not_ready (pods_List w (tick s + k) ''kube-system'')"
    using waitReady_Some_ready by blast
  then obtain N where "\<forall>j<N. not_ready (pods_List w (tick s + j) ''kube-system'')"
    and "\<not> not_ready (pods_List w (tick s + N) ''kube-system'')"
    by (rule first_ready)
  from waitReady_after [OF this] assms
  have s': "s' = s\<lparr>tick := tick s + N + 1,
     trace := trace s @
       concat (map (\<lambda>k. [PodsList ''kube-system'' (fst (pods_List w (tick s + k) ''kube-system''))
                            (snd (pods_List w (tick s + k) ''kube-system'')),
                          Log ''Kubernetes not yet ready: %s\<newline>''
                            [AErr (snd (pods_List w (tick s + k) ''kube-system''))],
                          Sleep (time_Second * 10)]) [0..<N]) @
       [PodsList ''kube-system'' (fst (pods_List w (tick s + N) ''kube-system''))
          (snd (pods_List w (tick s + N) ''kube-system'')),
        Log ''Kubernetes ready'' []]\<rparr>"
    by simp
  show ?thesis
    unfolding s' by (simp add: dial_and_cilium_attempts) (simp add: dial_and_cilium_def dial_or_cilium_def)
qed

lemma ensures_Fatal_weaken:
  "ensures r F Q \<Longrightarrow> (\<And>s. F s \<Longrightarrow> F' s) \<Longrightarrow> ensures r F' Q"
  by (cases r) simp_all

lemma main_addons_dc:
  "dial_and_cilium (trace s) = [] \<Longrightarrow>
   ensures (main_addons emb w s) (\<lambda>s'. dial_then_cilium emb (dial_and_cilium (trace s')))
     (\<lambda>_ s'. dial_then_cilium emb (dial_and_cilium (trace s')))"
  unfolding main_addons_def
  apply (rule ensures_andThen [where Q = "\<lambda>_ s'. dial_and_cilium (trace s') = []"])
   apply (rule ensures_weaken [where Q = "\<lambda>_ s'. dial_and_cilium (trace s') = []"])
    apply (rule ensures_Fatal_weaken [OF main_untaint_crds_dc [where P = "\<lambda>x. x = []"]])
     apply assumption
    apply (simp add: dial_then_cilium_def)
   apply assumption
  apply (rule ensures_andThen [where Q = "\<lambda>_ s'. dial_and_cilium (trace s') = []"])
   apply (rule ensures_Fatal_weaken [OF main_repos_dc [where P = "\<lambda>x. x = []"]])
    apply assumption
   apply (simp add: dial_then_cilium_def)
  apply (rule ensures_andThen [where Q = "\<lambda>_ s'. dial_then_cilium emb (dial_and_cilium (trace s'))"])
   apply (erule main_cilium_dc)
  apply (intro ensures_andThen [where Q = "\<lambda>_ s'. dial_then_cilium emb (dial_and_cilium (trace s'))"]
        main_kyverno_dc [where P = "dial_then_cilium emb"] main_rook_dc [where P = "dial_then_cilium emb"]
        main_gitops_dc [where P = "dial_then_cilium emb"] main_policies_dc [where P = "dial_then_cilium emb"])
        apply assumption+
  done

lemma dial_and_cilium_init: "dial_and_cilium (trace init_state) = []"
  by (simp add: init_state_def dial_and_cilium_def)

lemma run_dial_then_cilium:
  assumes "main emb w = Some (code, s)"
  shows "dial_then_cilium emb (dial_and_cilium (trace s))"
proof (cases "main_boot w init_state")
  case (Fatal s0)
  with assms have "s = s0" by (simp add: main_def)
  with ensures_Fatal [OF main_boot_dc [where P = "\<lambda>x. x = []", OF dial_and_cilium_init] Fatal]
  show ?thesis by (simp add: dial_then_cilium_def)
next
  case (Ok u0 s0)
  note c0 = ensures_Ok [OF main_boot_dc [where P = "\<lambda>x. x = []", OF dial_and_cilium_init] Ok]
  from assms Ok obtain s1 where w: "waitReady w s0 = Some s1"
    by (auto simp: main_def split: option.splits)
  from waitReady_dc [OF w] c0 have c1: "dial_and_cilium (trace s1) = []" by simp
  show ?thesis
  proof (cases "main_addons emb w s1")
    case (Fatal s2)
    with assms Ok w have "s = s2" by (simp add: main_def)
    with ensures_Fatal [OF main_addons_dc [OF c1] Fatal] show ?thesis by simp
  next
    case (Ok u2 s2)
    with assms \<open>main_boot w init_state = Ok u0 s0\<close> w have "s = s2" by (simp add: main_def)
    with ensures_Ok [OF main_addons_dc [OF c1] Ok] show ?thesis by simp
  qed
qed

lemma dial_then_cilium_pair:
  assumes "dial_then_cilium emb (dial_and_cilium tr)"
    and "NetDial n a ip None \<in> set tr"
    and "InstallOrUpgradeChart c spec err \<in> set tr" and "ReleaseName spec = ''cilium''"
  shows "spec = ciliumSpec emb ip"
proof -
  have d: "NetDial n a ip None \<in> set (dial_and_cilium tr)"
    using assms(2) by (simp add: dial_and_cilium_def dial_or_cilium_def)
  have i: "InstallOrUpgradeChart c spec err \<in> set (dial_and_cilium tr)"
    using assms(3,4) by (simp add: dial_and_cilium_def dial_or_cilium_def)
  from assms(1) d i show ?thesis
    by (auto simp: dial_then_cilium_def split: list.splits option.splits if_splits
        elim!: dial_ip.elims installed_spec.elims)
qed

lemma op_install_event:
  "InstallOrUpgrade ns spec \<in> set (stage_ops tr) \<Longrightarrow>
   \<exists>c err. InstallOrUpgradeChart c spec err \<in> set tr \<and> opt_Namespace c = ns"
proof (induction tr)
  case Nil
  then show ?case by (simp add: stage_ops_def)
next
  case (Cons e tr)
  then show ?case
    by (cases e) (auto simp: stage_ops_def)
qed

lemma op_dial_event:
  "DialOut n a ip \<in> set (stage_ops tr) \<Longrightarrow> \<exists>err. NetDial n a ip err \<in> set tr"
proof (induction tr)
  case Nil
  then show ?case by (simp add: stage_ops_def)
next
  case (Cons e tr)
  then show ?case
    by (cases e) (auto simp: stage_ops_def)
qed

text \<open>A run that exits with status 0 has discovered an address.\<close>

lemma exit_0_discovers:
  assumes "main emb w = Some (0, s)"
  shows "\<exists>ip. NetDial ''udp'' ''1.1.1.1:80'' ip None \<in> set (trace s)"
proof -
  from main_cases [OF assms] obtain ip where g: "good (trace s)"
    and o: "DialOut ''udp'' ''1.1.1.1:80'' ip \<in> set (stage_ops (trace s))"
    by auto
  from op_dial_event [OF o] obtain err where e: "NetDial ''udp'' ''1.1.1.1:80'' ip err \<in> set (trace s)"
    by blast
  have "err = None"
  proof (cases err)
    case (Some y)
    with good_no_error [OF g e] show ?thesis by simp
  qed simp
  with e show ?thesis by blast
qed

text \<open>
  Claim C6. The embedded Cilium values are a parameter; let them hold the placeholder
  \<^verbatim>\<open>K8SHOST\<close> at one place only, between \<open>pre\<close> and \<open>post\<close>. In every run, for
  the address the dial discovered, when its text has no K and no T and is not made of the
  characters of \<^verbatim>\<open>8SHOS\<close> alone (as the text of every IP address is): the values of
  every install of the release "cilium" passed to the installer are \<open>pre\<close>, that
  address, \<open>post\<close>, and the placeholder does not occur in them; and a run that exits with
  status 0 has passed them, in the Cilium chart spec made from that address. By
  \<open>exit_0_discovers\<close> such a run has an address discovered.
\<close>

theorem cilium_values_host_substituted:
  assumes "main emb w = Some (code, s)"
    and "NetDial n a ip None \<in> set (trace s)"
    and "CiliumYaml emb = pre @ ''K8SHOST'' @ post"
    and "\<not> sublist ''K8SHOST'' (pre @ ''K8SHOS'')"
    and "\<not> sublist ''K8SHOST'' (''8SHOST'' @ post)"
    and "CHR ''K'' \<notin> set ip" and "CHR ''T'' \<notin> set ip"
    and "\<not> set ip \<subseteq> set ''8SHOS''"
  shows "(\<forall>c spec err. InstallOrUpgradeChart c spec err \<in> set (trace s) \<and>
            ReleaseName spec = ''cilium'' \<longrightarrow>
            ValuesYaml spec = pre @ ip @ post \<and> \<not> sublist ''K8SHOST'' (ValuesYaml spec)) \<and>
         (code = 0 \<longrightarrow> (\<exists>c. InstallOrUpgradeChart c (ciliumSpec emb ip) None \<in> set (trace s)))"
proof (intro conjI allI impI)
  note v = ciliumSpec_values [OF assms(3-8)]
  note p = run_dial_then_cilium [OF assms(1)]
  {
    fix c spec err
    assume a: "InstallOrUpgradeChart c spec err \<in> set (trace s) \<and> ReleaseName spec = ''cilium''"
    then have "spec = ciliumSpec emb ip"
      using dial_then_cilium_pair [OF p assms(2)] by blast
    with v show "ValuesYaml spec = pre @ ip @ post" and "\<not> sublist ''K8SHOST'' (ValuesYaml spec)"
      by blast+
  }
  assume "code = 0"
  with main_cases [OF assms(1)] obtain ip' where g: "good (trace s)"
    and o: "InstallOrUpgrade ''default'' (ciliumSpec emb ip') \<in> set (stage_ops (trace s))"
    by auto
  from op_install_event [OF o] obtain c err where
    e: "InstallOrUpgradeChart c (ciliumSpec emb ip') err \<in> set (trace s)"
    by blast
  have "err = None"
  proof (cases err)
    case (Some y)
    with good_no_error [OF g e] show ?thesis by simp
  qed simp
  moreover from dial_then_cilium_pair [OF p assms(2) e] have "ciliumSpec emb ip' = ciliumSpec emb ip"
    by simp
  ultimately show "\<exists>c. InstallOrUpgradeChart c (ciliumSpec emb ip) None \<in> set (trace s)"
    using e by auto
qed

theorem cilium_values_host_substituted_witness:
  "CiliumYaml sample_embedded = ''k8sServiceHost: '' @ ''K8SHOST'' @ [] \<and>
   \<not> sublist ''K8SHOST'' (''k8sServiceHost: '' @ ''K8SHOS'') \<and>
   \<not> sublist ''K8SHOST'' (''8SHOST'' @ []) \<and>
   CHR ''K'' \<notin> set ''10.0.0.5'' \<and> CHR ''T'' \<notin> set ''10.0.0.5'' \<and>
   \<not> set ''10.0.0.5'' \<subseteq> set ''8SHOS'' \<and>
   (\<exists>s c. main sample_embedded steady_world = Some (0, s) \<and>
      NetDial ''udp'' ''1.1.1.1:80'' ''10.0.0.5'' None \<in> set (trace s) \<and>
      InstallOrUpgradeChart c (ciliumSpec sample_embedded ''10.0.0.5'') None \<in> set (trace s) \<and>
      ValuesYaml (ciliumSpec sample_embedded ''10.0.0.5'') = ''k8sServiceHost: 10.0.0.5'' \<and>
      \<not> sublist ''K8SHOST'' (ValuesYaml (ciliumSpec sample_embedded ''10.0.0.5'')))"
proof -
  have a: "CiliumYaml sample_embedded = ''k8sServiceHost: '' @ ''K8SHOST'' @ []"
    by (simp add: sample_embedded_def)
  have b: "\<not> sublist ''K8SHOST'' (''k8sServiceHost: '' @ ''K8SHOS'')"
    by (simp add: sublist_Cons_right)
  have c: "\<not> sublist ''K8SHOST'' (''8SHOST'' @ [])"
    by (simp add: sublist_Cons_right)
  have d: "CHR ''K'' \<notin> set ''10.0.0.5''" "CHR ''T'' \<notin> set ''10.0.0.5''"
    "\<not> set ''10.0.0.5'' \<subseteq> set ''8SHOS''"
    by simp_all
  have "\<exists>s. main sample_embedded steady_world = Some (0, s) \<and>
      NetDial ''udp'' ''1.1.1.1:80'' ''10.0.0.5'' None \<in> set (trace s)"
    by (simp add: run_defs steady_world_def)
  then obtain s where s: "main sample_embedded steady_world = Some (0, s)"
    and n: "NetDial ''udp'' ''1.1.1.1:80'' ''10.0.0.5'' None \<in> set (trace s)"
    by blast
  note r = cilium_values_host_substituted [OF s n a b c d]
  from r obtain h where
    i: "InstallOrUpgradeChart h (ciliumSpec sample_embedded ''10.0.0.5'') None \<in> set (trace s)"
    by blast
  have rel: "ReleaseName (ciliumSpec sample_embedded ''10.0.0.5'') = ''cilium''"
    by simp
  from r i rel have v: "ValuesYaml (ciliumSpec sample_embedded ''10.0.0.5'') =
      ''k8sServiceHost: '' @ ''10.0.0.5'' @ []"
    and ns: "\<not> sublist ''K8SHOST'' (ValuesYaml (ciliumSpec sample_embedded ''10.0.0.5''))"
    by blast+
  from v have v': "ValuesYaml (ciliumSpec sample_embedded ''10.0.0.5'') = ''k8sServiceHost: 10.0.0.5''"
    by simp
  from s n i v' ns have "\<exists>s c. main sample_embedded steady_world = Some (0, s) \<and>
      NetDial ''udp'' ''1.1.1.1:80'' ''10.0.0.5'' None \<in> set (trace s) \<and>
      InstallOrUpgradeChart c (ciliumSpec sample_embedded ''10.0.0.5'') None \<in> set (trace s) \<and>
      ValuesYaml (ciliumSpec sample_embedded ''10.0.0.5'') = ''k8sServiceHost: 10.0.0.5'' \<and>
      \<not> sublist ''K8SHOST'' (ValuesYaml (ciliumSpec sample_embedded ''10.0.0.5''))"
    by blast
  with a b c d show ?thesis
    by (intro conjI)
qed

section \<open>The client handle of each chart install\<close>

lemma main_boot_installs:
  "list_all install_ok (trace s) \<Longrightarrow>
   ensures (main_boot w s) (\<lambda>s'. list_all install_ok (trace s')) (\<lambda>_ s'. list_all install_ok (trace s'))"
  by (simp add: main_boot_def steps wp prims split del: if_split;
      (intro conjI impI)?; simp add: specs)

lemma main_untaint_crds_installs:
  "list_all install_ok (trace s) \<Longrightarrow>
   ensures (main_untaint_crds w s) (\<lambda>s'. list_all install_ok (trace s')) (\<lambda>_ s'. list_all install_ok (trace s'))"
  by (simp add: main_untaint_crds_def steps wp prims split del: if_split;
      (intro conjI impI)?; simp add: specs)

lemma main_repos_installs:
  "list_all install_ok (trace s) \<Longrightarrow>
   ensures (main_repos w s) (\<lambda>s'. list_all install_ok (trace s')) (\<lambda>(c::KubeConfClientOptions) s'. list_all install_ok (trace s') \<and> opt_Namespace c = ''default'')"
  by (simp add: main_repos_def steps wp prims split del: if_split;
      (intro conjI impI)?; simp add: specs)

lemma main_cilium_installs:
  "list_all install_ok (trace s) \<and> opt_Namespace helmClient = ''default'' \<Longrightarrow>
   ensures (main_cilium emb w helmClient s) (\<lambda>s'. list_all install_ok (trace s')) (\<lambda>_ s'. list_all install_ok (trace s'))"
  by (simp add: main_cilium_def steps wp prims split del: if_split;
      (intro conjI impI)?; simp add: specs)

lemma main_kyverno_installs:
  "list_all install_ok (trace s) \<Longrightarrow>
   ensures (main_kyverno w s) (\<lambda>s'. list_all install_ok (trace s')) (\<lambda>_ s'. list_all install_ok (trace s'))"
  by (simp add: main_kyverno_def steps wp prims split del: if_split;
      (intro conjI impI)?; simp add: specs)

lemma main_rook_installs:
  "list_all install_ok (trace s) \<Longrightarrow>
   ensures (main_rook emb w s) (\<lambda>s'. list_all install_ok (trace s')) (\<lambda>_ s'. list_all install_ok (trace s'))"
  by (simp add: main_rook_def steps wp prims split del: if_split;
      (intro conjI impI)?; simp add: specs)

lemma main_gitops_installs:
  "list_all install_ok (trace s) \<Longrightarrow>
   ensures (main_gitops emb w s) (\<lambda>s'. list_all install_ok (trace s')) (\<lambda>_ s'. list_all install_ok (trace s'))"
  by (simp add: main_gitops_def steps wp prims split del: if_split;
      (intro conjI impI)?; simp add: specs)

lemma main_policies_installs:
  "list_all install_ok (trace s) \<Longrightarrow>
   ensures (main_policies w s) (\<lambda>s'. list_all install_ok (trace s')) (\<lambda>_ s'. list_all install_ok (trace s'))"
  by (simp add: main_policies_def steps wp prims split del: if_split;
      (intro conjI impI)?; simp add: specs)

lemma installs_attempts:
  "list_all install_ok (concat (map (\<lambda>k. [PodsList ns (f k) (g k), Log m (h k), Sleep d]) ks))"
  by (induction ks) simp_all

lemma waitReady_installs:
  assumes "list_all install_ok (trace s)" and "waitReady w s = Some s'"
  shows "list_all install_ok (trace s')"
proof -
  from assms(2) obtain k where "\<not> not_ready (pods_List w (tick s + k) ''kube-system'')"
    using waitReady_Some_ready by blast
  then obtain N where "\<forall>j<N. not_ready (pods_List w (tick s + j) ''kube-system'')"
    and "\<not> not_ready (pods_List w (tick s + N) ''kube-system'')"
    by (rule first_ready)
  from waitReady_after [OF this] assms show ?thesis
    by (auto simp: installs_attempts)
qed

lemma main_addons_installs:
  "list_all install_ok (trace s) \<Longrightarrow>
   ensures (main_addons emb w s) (\<lambda>s'. list_all install_ok (trace s'))
     (\<lambda>_ s'. list_all install_ok (trace s'))"
  unfolding main_addons_def
  by (intro ensures_andThen [where Q = "\<lambda>(_::unit) s'. list_all install_ok (trace s')"]
        ensures_andThen [where Q = "\<lambda>(c::KubeConfClientOptions) s'.
           list_all install_ok (trace s') \<and> opt_Namespace c = ''default''"]
        main_untaint_crds_installs main_repos_installs main_cilium_installs
        main_kyverno_installs main_rook_installs main_gitops_installs main_policies_installs)

text \<open>
  Claim C10. In every run, each chart install of the release "cilium" goes through a
  client handle constructed for namespace "default" while its spec targets
  "kube-system"; every other chart install goes through a handle constructed for the
  namespace its spec targets. A run that exits with status 0 makes exactly five installs:
  Cilium, Kyverno, the rook-ceph operator, the rook-ceph cluster and weave-gitops.
\<close>

theorem chart_install_handles:
  assumes "main emb w = Some (code, s)"
  shows "list_all install_ok (trace s) \<and>
    (code = 0 \<longrightarrow> handles_and_targets (stage_ops (trace s)) =
       [(''default'', ''cilium'', ''kube-system''),
        (''kyverno'', ''kyverno'', ''kyverno''),
        (''rook-ceph'', ''rook-ceph'', ''rook-ceph''),
        (''rook-ceph'', ''rook-ceph-cluster'', ''rook-ceph''),
        (''weave-gitops'', ''weave-gitops'', ''weave-gitops'')])"
proof
  have i: "list_all install_ok (trace init_state)"
    by (simp add: init_state_def)
  show "list_all install_ok (trace s)"
  proof (cases "main_boot w init_state")
    case (Fatal s0)
    with assms have "s = s0" by (simp add: main_def)
    with ensures_Fatal [OF main_boot_installs [OF i] Fatal] show ?thesis by simp
  next
    case (Ok u0 s0)
    note c0 = ensures_Ok [OF main_boot_installs [OF i] Ok]
    from assms Ok obtain s1 where w: "waitReady w s0 = Some s1"
      by (auto simp: main_def split: option.splits)
    note c1 = waitReady_installs [OF c0 w]
    show ?thesis
    proof (cases "main_addons emb w s1")
      case (Fatal s2)
      with assms Ok w have "s = s2" by (simp add: main_def)
      with ensures_Fatal [OF main_addons_installs [OF c1] Fatal] show ?thesis by simp
    next
      case (Ok u2 s2)
      with assms \<open>main_boot w init_state = Ok u0 s0\<close> w have "s = s2" by (simp add: main_def)
      with ensures_Ok [OF main_addons_installs [OF c1] Ok] show ?thesis by simp
    qed
  qed
next
  show "code = 0 \<longrightarrow> handles_and_targets (stage_ops (trace s)) =
       [(''default'', ''cilium'', ''kube-system''),
        (''kyverno'', ''kyverno'', ''kyverno''),
        (''rook-ceph'', ''rook-ceph'', ''rook-ceph''),
        (''rook-ceph'', ''rook-ceph-cluster'', ''rook-ceph''),
        (''weave-gitops'', ''weave-gitops'', ''weave-gitops'')]"
  proof
    assume "code = 0"
    with main_cases [OF assms] obtain n ip where o: "stage_ops (trace s) =
          [RunCmd ''bash'' [''-c'', enableKubeletCmd],
           RunCmd ''kubeadm'' [''init'', ''--config'', ''/root/clusterconfig.yaml''],
           BuildConfig [] ''/etc/kubernetes/admin.conf'',
           NewClientset] @
          replicate (Suc n) (ListPods ''kube-system'') @
          [RunCmd ''bash'' [''-c'', clearTaintCmd], RunCmd ''bash'' [''-c'', gatewayCRDsCmd],
           NewHelmClient ''default'',
           AddRepo ''default'' ciliumRepo, AddRepo ''default'' kyvernoRepo,
           AddRepo ''default'' rookRepo, AddRepo ''default'' gitopsRepo,
           DialOut ''udp'' ''1.1.1.1:80'' ip,
           InstallOrUpgrade ''default'' (ciliumSpec emb ip),
           CreateNamespace kyvNsSpec, NewHelmClient ''kyverno'', Install ''kyverno'' kyvernoSpec,
           CreateNamespace rookNsSpec, RunCmd ''bash'' [''-c'', rookOverridesCmd],
           NewHelmClient ''rook-ceph'',
           InstallOrUpgrade ''rook-ceph'' (rookOpSpec emb),
           InstallOrUpgrade ''rook-ceph'' (rookClusterSpec emb),
           CreateNamespace gitopsNsSpec, NewHelmClient ''weave-gitops'',
           Install ''weave-gitops'' (gitopsSpec emb),
           RunCmd ''bash'' [''-c'', defaultPoliciesCmd]]"
      by auto
    have r: "concat (map install_of (replicate m (ListPods ns))) = []" for m ns
      by (induction m) simp_all
    show "handles_and_targets (stage_ops (trace s)) =
       [(''default'', ''cilium'', ''kube-system''),
        (''kyverno'', ''kyverno'', ''kyverno''),
        (''rook-ceph'', ''rook-ceph'', ''rook-ceph''),
        (''rook-ceph'', ''rook-ceph-cluster'', ''rook-ceph''),
        (''weave-gitops'', ''weave-gitops'', ''weave-gitops'')]"
      unfolding o handles_and_targets_def
      by (simp add: r specs del: replicate.simps)
  qed
qed

theorem chart_install_handles_witness:
  "\<exists>s. main sample_embedded steady_world = Some (0, s) \<and>
     list_all install_ok (trace s) \<and>
     handles_and_targets (stage_ops (trace s)) =
       [(''default'', ''cilium'', ''kube-system''),
        (''kyverno'', ''kyverno'', ''kyverno''),
        (''rook-ceph'', ''rook-ceph'', ''rook-ceph''),
        (''rook-ceph'', ''rook-ceph-cluster'', ''rook-ceph''),
        (''weave-gitops'', ''weave-gitops'', ''weave-gitops'')]"
proof -
  have "\<exists>s. main sample_embedded steady_world = Some (0, s)"
    by (simp add: run_defs steady_world_def)
  then obtain s where s: "main sample_embedded steady_world = Some (0, s)" ..
  from chart_install_handles [OF s] s show ?thesis
    by blast
qed

end
